theory Spec2Isabelle
  imports Complex_Main "HOL-Library.Word"
begin

section \<open>Decimals, identifiers and errors\<close>

text \<open>
  The backend computes with \<^verbatim>\<open>decimal.Decimal\<close> (arbitrary precision, value
  \<open>coefficient * 10 ^ exponent\<close>). Every operation the code uses depends on the value
  only, so a decimal is modelled by the rational number it denotes. \<^verbatim>\<open>Add\<close>,
  \<^verbatim>\<open>Sub\<close>, \<^verbatim>\<open>Neg\<close>, \<^verbatim>\<open>Mul\<close> and the comparisons are exact.

  \<^verbatim>\<open>Round(places)\<close> rounds to \<open>places\<close> digits after the point, a tie going away
  from zero (half-up on the magnitude).

  \<^verbatim>\<open>Div\<close> panics on a zero divisor; otherwise it is the quotient rounded the same way
  to \<^verbatim>\<open>DivisionPrecision = 16\<close> digits.
\<close>

type_synonym Decimal = rat

definition decimal_Round :: "nat \<Rightarrow> Decimal \<Rightarrow> Decimal" where
  "decimal_Round places d =
     sgn d * of_int \<lfloor>\<bar>d\<bar> * 10 ^ places + 1 / 2\<rfloor> / 10 ^ places"

definition DivisionPrecision :: nat where
  "DivisionPrecision = 16"

type_synonym uuid = "128 word"
type_synonym AccountID = uuid
type_synonym UserID = uuid
type_synonym TransactionID = uuid
type_synonym TransferDetailsID = uuid
type_synonym ExchangeDetailsID = uuid
type_synonym LedgerRecordID = uuid
type_synonym Time = int

text \<open>\<^verbatim>\<open>type Currency string\<close>, with the two enum constants of \<^verbatim>\<open>ENUM(USD, EUR)\<close>.\<close>

type_synonym Currency = string

definition CurrencyUSD :: Currency where
  "CurrencyUSD = ''USD''"

definition CurrencyEUR :: Currency where
  "CurrencyEUR = ''EUR''"

text \<open>
  Modelled from the spec: the generated method \<^verbatim>\<open>Currency.IsValid\<close> (the go-enum
  output is not among the sources); the recognised set is USD and EUR.
\<close>

definition IsValid :: "Currency \<Rightarrow> bool" where
  "IsValid c = (c = CurrencyUSD \<or> c = CurrencyEUR)"

record Money =
  amount :: Decimal
  currency :: Currency

text \<open>
  Errors are values. A typed error of the domain keeps its fields; wrapping with
  \<^verbatim>\<open>fmt.Errorf("...: %w", err)\<close> keeps the wrapped error recognisable
  (\<^verbatim>\<open>errors.As\<close>) and is modelled as the wrapped error itself. \<open>Errorf\<close> is an
  error made by \<^verbatim>\<open>fmt.Errorf\<close> from a message alone, \<open>StorageError\<close> an error
  returned by the database (a violated constraint, a value out of the column's range),
  \<open>Panic\<close> a run-time panic.
\<close>

datatype error =
    CurrencyMismatch Currency Currency
  | NegativeTransfer Money
  | UnsupportedCurrency Currency
  | AccountNotFound AccountID
  | AccountBalanceMismatch AccountID Decimal Decimal
  | LedgerImbalance Currency Decimal
  | NegativeExchange Money
  | SameCurrencyExchange Currency
  | SameCurrencyExchangeRate Currency
  | InvalidExchangeRate Decimal
  | ExchangeRateNotFound Currency Currency
  | InsufficientFunds AccountID Decimal Decimal
  | Errorf string
  | StorageError string
  | Panic string

definition decimal_Div :: "Decimal \<Rightarrow> Decimal \<Rightarrow> error + Decimal" where
  "decimal_Div d d2 =
     (if d2 = 0 then Inl (Panic ''decimal division by 0'')
      else Inr (decimal_Round DivisionPrecision (d / d2)))"

section \<open>Money\<close>

definition NewMoney :: "Decimal \<Rightarrow> Currency \<Rightarrow> error + Money" where
  "NewMoney a c =
     (if \<not> IsValid c then Inl (UnsupportedCurrency c)
      else Inr \<lparr>amount = a, currency = c\<rparr>)"

definition CheckIsNotEqualCurrencies :: "Money \<Rightarrow> Money \<Rightarrow> error option" where
  "CheckIsNotEqualCurrencies m other =
     (if currency m \<noteq> currency other
      then Some (CurrencyMismatch (currency m) (currency other))
      else None)"

definition Add :: "Money \<Rightarrow> Money \<Rightarrow> error + Money" where
  "Add m other =
     (case CheckIsNotEqualCurrencies m other of
        Some err \<Rightarrow> Inl err
      | None \<Rightarrow> Inr \<lparr>amount = amount m + amount other, currency = currency m\<rparr>)"

definition Sub :: "Money \<Rightarrow> Money \<Rightarrow> error + Money" where
  "Sub m other =
     (case CheckIsNotEqualCurrencies m other of
        Some err \<Rightarrow> Inl err
      | None \<Rightarrow> Inr \<lparr>amount = amount m - amount other, currency = currency m\<rparr>)"

definition ToNegative :: "Money \<Rightarrow> Money" where
  "ToNegative m = \<lparr>amount = - amount m, currency = currency m\<rparr>"

definition IsNegative :: "Money \<Rightarrow> bool" where
  "IsNegative m = (amount m < 0)"

definition IsZero :: "Money \<Rightarrow> bool" where
  "IsZero m = (amount m = 0)"

section \<open>Accounts\<close>

definition CashbookUserID :: UserID where
  "CashbookUserID = 0x00000000000000000000000000000001"

definition CashbookUSD :: AccountID where
  "CashbookUSD = 0x00000000000000000000000000000010"

definition CashbookEUR :: AccountID where
  "CashbookEUR = 0x00000000000000000000000000000011"

definition GetCashbookAccount :: "Currency \<Rightarrow> AccountID" where
  "GetCashbookAccount c =
     (if c = CurrencyUSD then CashbookUSD
      else if c = CurrencyEUR then CashbookEUR
      else CashbookUSD)"

record Account =
  acc_id :: AccountID
  acc_userID :: UserID
  acc_balance :: Money

definition NewAccount :: "AccountID \<Rightarrow> UserID \<Rightarrow> Money \<Rightarrow> Account" where
  "NewAccount i u b = \<lparr>acc_id = i, acc_userID = u, acc_balance = b\<rparr>"

definition IsCashbook :: "Account \<Rightarrow> bool" where
  "IsCashbook a = (acc_userID a = CashbookUserID)"

text \<open>
  \<^verbatim>\<open>Credit\<close> and \<^verbatim>\<open>Debit\<close> assign the balance only on success; on an error the
  account is as it was. The result is the updated account.
\<close>

definition Credit :: "Account \<Rightarrow> Money \<Rightarrow> error + Account" where
  "Credit a money =
     (case Add (acc_balance a) money of
        Inl err \<Rightarrow> Inl err
      | Inr updated \<Rightarrow> Inr (a\<lparr>acc_balance := updated\<rparr>))"

definition Debit :: "Account \<Rightarrow> Money \<Rightarrow> error + Account" where
  "Debit a money =
     (if \<not> IsCashbook a \<and> amount (acc_balance a) < amount money
      then Inl (InsufficientFunds (acc_id a) (amount money) (amount (acc_balance a)))
      else case Sub (acc_balance a) money of
             Inl err \<Rightarrow> Inl err
           | Inr updated \<Rightarrow> Inr (a\<lparr>acc_balance := updated\<rparr>))"

section \<open>Exchange rates\<close>

record ExchangeRate =
  rate_from :: Currency
  rate_to :: Currency
  rate :: Decimal

definition NewExchangeRate :: "Currency \<Rightarrow> Currency \<Rightarrow> Decimal \<Rightarrow> error + ExchangeRate" where
  "NewExchangeRate f t r =
     (if f = t then Inl (SameCurrencyExchangeRate f)
      else if \<not> IsValid f then Inl (UnsupportedCurrency f)
      else if \<not> IsValid t then Inl (UnsupportedCurrency t)
      else if r < 0 \<or> r = 0 then Inl (InvalidExchangeRate r)
      else Inr \<lparr>rate_from = f, rate_to = t, rate = r\<rparr>)"

definition Convert :: "ExchangeRate \<Rightarrow> Money \<Rightarrow> error + Money" where
  "Convert e a =
     (if currency a \<noteq> rate_from e
      then Inl (CurrencyMismatch (rate_from e) (currency a))
      else NewMoney (decimal_Round 2 (amount a * rate e)) (rate_to e))"

text \<open>The fixed provider holds the one configured rate, USD to EUR.\<close>

definition GetRate :: "Decimal \<Rightarrow> Currency \<Rightarrow> Currency \<Rightarrow> error + ExchangeRate" where
  "GetRate usdToEurRate f t =
     (if f = t then Inl (SameCurrencyExchangeRate f)
      else if f = CurrencyUSD \<and> t = CurrencyEUR then NewExchangeRate f t usdToEurRate
      else if f = CurrencyEUR \<and> t = CurrencyUSD then
        (case decimal_Div 1 usdToEurRate of
           Inl err \<Rightarrow> Inl err
         | Inr q \<Rightarrow> NewExchangeRate f t (decimal_Round 6 q))
      else Inl (ExchangeRateNotFound f t))"

section \<open>Transactions, ledger records and operation descriptors\<close>

datatype TransactionType =
  TransactionTypeTransfer | TransactionTypeExchange | TransactionTypeDeposit | TransactionTypeWithdrawal

record Transaction =
  tx_id :: TransactionID
  tx_transactionType :: TransactionType
  tx_account :: AccountID
  tx_time :: Time

definition NewTransaction :: "TransactionID \<Rightarrow> TransactionType \<Rightarrow> AccountID \<Rightarrow> Time \<Rightarrow> Transaction" where
  "NewTransaction i ty a t =
     \<lparr>tx_id = i, tx_transactionType = ty, tx_account = a, tx_time = t\<rparr>"

record LedgerRecord =
  lr_id :: LedgerRecordID
  lr_transaction :: TransactionID
  lr_account :: AccountID
  lr_money :: Money
  lr_time :: Time

definition NewLedgerRecord ::
  "LedgerRecordID \<Rightarrow> TransactionID \<Rightarrow> AccountID \<Rightarrow> Money \<Rightarrow> Time \<Rightarrow> LedgerRecord" where
  "NewLedgerRecord i tr a m t =
     \<lparr>lr_id = i, lr_transaction = tr, lr_account = a, lr_money = m, lr_time = t\<rparr>"

text \<open>\<^verbatim>\<open>type LedgerEntry [2]*LedgerRecord\<close>: the pair of its two records.\<close>

type_synonym LedgerEntry = "LedgerRecord \<times> LedgerRecord"

record ExchangeLedgerEntries =
  SourceCurrencyEntry :: LedgerEntry
  TargetCurrencyEntry :: LedgerEntry

definition Records :: "ExchangeLedgerEntries \<Rightarrow> LedgerRecord list" where
  "Records e =
     [fst (SourceCurrencyEntry e), snd (SourceCurrencyEntry e),
      fst (TargetCurrencyEntry e), snd (TargetCurrencyEntry e)]"

text \<open>
  Identifiers made by \<^verbatim>\<open>uuid.New()\<close> (\<^verbatim>\<open>NewTransactionID\<close>,
  \<^verbatim>\<open>NewTransferDetailsID\<close>, \<^verbatim>\<open>NewExchangeDetailsID\<close>, \<^verbatim>\<open>NewLedgerRecordID\<close>)
  are arguments of the function that draws them, in the order of the draws.
\<close>

record TransferDetails =
  td_id :: TransferDetailsID
  td_transaction :: Transaction
  td_recipient :: AccountID
  td_money :: Money
  td_time :: Time

definition NewTransferDetails ::
  "TransferDetailsID \<Rightarrow> TransactionID \<Rightarrow> AccountID \<Rightarrow> AccountID \<Rightarrow> Money \<Rightarrow> Time
     \<Rightarrow> error + TransferDetails" where
  "NewTransferDetails i newTxID f t m tm =
     Inr \<lparr>td_id = i,
          td_transaction = NewTransaction newTxID TransactionTypeTransfer f tm,
          td_recipient = t, td_money = m, td_time = tm\<rparr>"

definition td_TransactionID :: "TransferDetails \<Rightarrow> TransactionID" where
  "td_TransactionID td = tx_id (td_transaction td)"

definition Sender :: "TransferDetails \<Rightarrow> AccountID" where
  "Sender td = tx_account (td_transaction td)"

definition GetLedgerEntry ::
  "LedgerRecordID \<Rightarrow> LedgerRecordID \<Rightarrow> TransferDetails \<Rightarrow> error + LedgerEntry" where
  "GetLedgerEntry rid1 rid2 td =
     (let first = NewLedgerRecord rid1 (td_TransactionID td) (Sender td)
                    (ToNegative (td_money td)) (td_time td);
          second = NewLedgerRecord rid2 (td_TransactionID td) (td_recipient td)
                    (td_money td) (td_time td)
      in case Add (lr_money first) (lr_money second) of
           Inl err \<Rightarrow> Inl err
         | Inr s \<Rightarrow>
             if \<not> IsZero s
             then Inl (Errorf ''sum of two ledger records at the same transaction is not zero'')
             else Inr (first, second))"

record ExchangeDetails =
  ed_id :: ExchangeDetailsID
  ed_transaction :: Transaction
  ed_sourceAccount :: AccountID
  ed_targetAccount :: AccountID
  ed_sourceAmount :: Money
  ed_targetAmount :: Money
  ed_time :: Time

definition NewExchangeDetails ::
  "ExchangeDetailsID \<Rightarrow> TransactionID \<Rightarrow> AccountID \<Rightarrow> AccountID \<Rightarrow> Money \<Rightarrow> Money \<Rightarrow> Time
     \<Rightarrow> error + ExchangeDetails" where
  "NewExchangeDetails i newTxID src tgt sa ta tm =
     (if currency sa = currency ta
      then Inl (Errorf ''source and target currencies must be different'')
      else Inr \<lparr>ed_id = i,
                ed_transaction = NewTransaction newTxID TransactionTypeExchange src tm,
                ed_sourceAccount = src, ed_targetAccount = tgt,
                ed_sourceAmount = sa, ed_targetAmount = ta, ed_time = tm\<rparr>)"

definition ed_TransactionID :: "ExchangeDetails \<Rightarrow> TransactionID" where
  "ed_TransactionID ed = tx_id (ed_transaction ed)"

definition ed_ExchangeRate :: "ExchangeDetails \<Rightarrow> error + Decimal" where
  "ed_ExchangeRate ed = decimal_Div (amount (ed_targetAmount ed)) (amount (ed_sourceAmount ed))"

definition validateBalancedEntry :: "LedgerRecord \<Rightarrow> LedgerRecord \<Rightarrow> error option" where
  "validateBalancedEntry a b =
     (case Add (lr_money a) (lr_money b) of
        Inl err \<Rightarrow> Some err
      | Inr s \<Rightarrow>
          if \<not> IsZero s then Some (Errorf ''ledger entry does not balance'') else None)"

definition buildSourceCurrencyEntry ::
  "LedgerRecordID \<Rightarrow> LedgerRecordID \<Rightarrow> ExchangeDetails \<Rightarrow> AccountID \<Rightarrow> error + LedgerEntry" where
  "buildSourceCurrencyEntry rid1 rid2 ed cashbook =
     (let userDebit = NewLedgerRecord rid1 (ed_TransactionID ed) (ed_sourceAccount ed)
                        (ToNegative (ed_sourceAmount ed)) (ed_time ed);
          cashbookCredit = NewLedgerRecord rid2 (ed_TransactionID ed) cashbook
                        (ed_sourceAmount ed) (ed_time ed)
      in case validateBalancedEntry userDebit cashbookCredit of
           Some err \<Rightarrow> Inl err
         | None \<Rightarrow> Inr (userDebit, cashbookCredit))"

definition buildTargetCurrencyEntry ::
  "LedgerRecordID \<Rightarrow> LedgerRecordID \<Rightarrow> ExchangeDetails \<Rightarrow> AccountID \<Rightarrow> error + LedgerEntry" where
  "buildTargetCurrencyEntry rid1 rid2 ed cashbook =
     (let cashbookDebit = NewLedgerRecord rid1 (ed_TransactionID ed) cashbook
                        (ToNegative (ed_targetAmount ed)) (ed_time ed);
          userCredit = NewLedgerRecord rid2 (ed_TransactionID ed) (ed_targetAccount ed)
                        (ed_targetAmount ed) (ed_time ed)
      in case validateBalancedEntry cashbookDebit userCredit of
           Some err \<Rightarrow> Inl err
         | None \<Rightarrow> Inr (cashbookDebit, userCredit))"

definition GetLedgerEntries ::
  "LedgerRecordID \<Rightarrow> LedgerRecordID \<Rightarrow> LedgerRecordID \<Rightarrow> LedgerRecordID \<Rightarrow> ExchangeDetails
     \<Rightarrow> error + ExchangeLedgerEntries" where
  "GetLedgerEntries rid1 rid2 rid3 rid4 ed =
     (let sourceCashbook = GetCashbookAccount (currency (ed_sourceAmount ed));
          targetCashbook = GetCashbookAccount (currency (ed_targetAmount ed))
      in case buildSourceCurrencyEntry rid1 rid2 ed sourceCashbook of
           Inl err \<Rightarrow> Inl err
         | Inr sourceCurrencyEntry \<Rightarrow>
             (case buildTargetCurrencyEntry rid3 rid4 ed targetCashbook of
                Inl err \<Rightarrow> Inl err
              | Inr targetCurrencyEntry \<Rightarrow>
                  Inr \<lparr>SourceCurrencyEntry = sourceCurrencyEntry,
                       TargetCurrencyEntry = targetCurrencyEntry\<rparr>))"

section \<open>Domain services\<close>

text \<open>
  The services receive pointers to accounts and mutate them in place. Every caller passes
  freshly loaded account objects, one per argument, so no two arguments alias; the model
  passes the accounts by value and returns them, as they are when the call returns, beside
  the result. An account already changed stays changed when a later step fails.
\<close>

definition TransferService_Execute ::
  "TransferDetailsID \<Rightarrow> TransactionID \<Rightarrow> Account \<Rightarrow> Account \<Rightarrow> Money \<Rightarrow> Time
     \<Rightarrow> (error + TransferDetails) \<times> Account \<times> Account" where
  "TransferService_Execute newID newTxID from to money now =
     (if IsNegative money then (Inl (NegativeTransfer money), from, to)
      else case Debit from money of
             Inl err \<Rightarrow> (Inl err, from, to)
           | Inr from' \<Rightarrow>
               (case Credit to money of
                  Inl err \<Rightarrow> (Inl err, from', to)
                | Inr to' \<Rightarrow>
                    (case NewTransferDetails newID newTxID (acc_id from') (acc_id to') money now of
                       Inl err \<Rightarrow> (Inl err, from', to')
                     | Inr transfer \<Rightarrow> (Inr transfer, from', to'))))"

definition CalculateExchangeAmount :: "Money \<Rightarrow> ExchangeRate \<Rightarrow> error + Money" where
  "CalculateExchangeAmount sourceAmount exchangeRate = Convert exchangeRate sourceAmount"

text \<open>
  \<^verbatim>\<open>getCashbookForCurrency\<close> returns one of the two cashbook pointers;
  \<open>setCashbookForCurrency\<close> is the write through that pointer.
\<close>

definition getCashbookForCurrency :: "Account \<Rightarrow> Account \<Rightarrow> Currency \<Rightarrow> Account" where
  "getCashbookForCurrency cashbookUSD cashbookEUR c =
     (if c = CurrencyUSD then cashbookUSD else cashbookEUR)"

definition setCashbookForCurrency ::
  "Account \<Rightarrow> Account \<Rightarrow> Currency \<Rightarrow> Account \<Rightarrow> Account \<times> Account" where
  "setCashbookForCurrency cashbookUSD cashbookEUR c a =
     (if c = CurrencyUSD then (a, cashbookEUR) else (cashbookUSD, a))"

text \<open>The accounts returned are source, target, USD cashbook, EUR cashbook.\<close>

definition ExchangeService_Execute ::
  "ExchangeDetailsID \<Rightarrow> TransactionID \<Rightarrow> Account \<Rightarrow> Account \<Rightarrow> Account \<Rightarrow> Account
     \<Rightarrow> Money \<Rightarrow> ExchangeRate \<Rightarrow> Time
     \<Rightarrow> (error + ExchangeDetails) \<times> Account \<times> Account \<times> Account \<times> Account" where
  "ExchangeService_Execute newID newTxID sourceAccount targetAccount cashbookUSD cashbookEUR
       sourceAmount exchangeRate now =
     (if IsNegative sourceAmount
      then (Inl (NegativeExchange sourceAmount),
            sourceAccount, targetAccount, cashbookUSD, cashbookEUR)
      else if IsZero sourceAmount
      then (Inl (Errorf ''exchange amount cannot be zero''),
            sourceAccount, targetAccount, cashbookUSD, cashbookEUR)
      else if currency (acc_balance sourceAccount) = currency (acc_balance targetAccount)
      then (Inl (SameCurrencyExchange (currency (acc_balance sourceAccount))),
            sourceAccount, targetAccount, cashbookUSD, cashbookEUR)
      else if rate_from exchangeRate \<noteq> currency sourceAmount
      then (Inl (CurrencyMismatch (rate_from exchangeRate) (currency sourceAmount)),
            sourceAccount, targetAccount, cashbookUSD, cashbookEUR)
      else if rate_to exchangeRate \<noteq> currency (acc_balance targetAccount)
      then (Inl (CurrencyMismatch (rate_to exchangeRate) (currency (acc_balance targetAccount))),
            sourceAccount, targetAccount, cashbookUSD, cashbookEUR)
      else case CalculateExchangeAmount sourceAmount exchangeRate of
        Inl err \<Rightarrow> (Inl err, sourceAccount, targetAccount, cashbookUSD, cashbookEUR)
      | Inr targetAmount \<Rightarrow>
      (case Debit sourceAccount sourceAmount of
        Inl err \<Rightarrow> (Inl err, sourceAccount, targetAccount, cashbookUSD, cashbookEUR)
      | Inr source' \<Rightarrow>
      (case Credit targetAccount targetAmount of
        Inl err \<Rightarrow> (Inl err, source', targetAccount, cashbookUSD, cashbookEUR)
      | Inr target' \<Rightarrow>
      (case Credit (getCashbookForCurrency cashbookUSD cashbookEUR (currency sourceAmount))
              sourceAmount of
        Inl err \<Rightarrow> (Inl err, source', target', cashbookUSD, cashbookEUR)
      | Inr sourceCashbook' \<Rightarrow>
      (case setCashbookForCurrency cashbookUSD cashbookEUR (currency sourceAmount)
              sourceCashbook' of
        (usd1, eur1) \<Rightarrow>
      (case Debit (getCashbookForCurrency usd1 eur1 (currency targetAmount)) targetAmount of
        Inl err \<Rightarrow> (Inl err, source', target', usd1, eur1)
      | Inr targetCashbook' \<Rightarrow>
      (case setCashbookForCurrency usd1 eur1 (currency targetAmount) targetCashbook' of
        (usd2, eur2) \<Rightarrow>
      (case NewExchangeDetails newID newTxID (acc_id source') (acc_id target')
              sourceAmount targetAmount now of
        Inl err \<Rightarrow> (Inl err, source', target', usd2, eur2)
      | Inr exchange \<Rightarrow> (Inr exchange, source', target', usd2, eur2)))))))))"

section \<open>The database\<close>

text \<open>
  The tables of \<^verbatim>\<open>000001_init_tables.up.sql\<close>, each a list of rows (columns with a
  default that no query of the core reads are left out; of \<^verbatim>\<open>users\<close> only the
  key is kept). A column of the enum type \<^verbatim>\<open>currency\<close> holds one of its two labels.
  A value written to a \<^verbatim>\<open>DECIMAL(p, s)\<close> column is rounded to \<open>s\<close> digits after the
  point, a tie going away from zero, and refused when the result does not fit \<open>p\<close> digits.
  Identifiers drawn by \<^verbatim>\<open>uuid.New()\<close> are taken to be fresh: a conflict on the
  primary key of an inserted row is not modelled, and neither is a failure of the
  connection.
\<close>

datatype currency_enum = USD | EUR

definition currency_of_enum :: "currency_enum \<Rightarrow> Currency" where
  "currency_of_enum c = (case c of USD \<Rightarrow> CurrencyUSD | EUR \<Rightarrow> CurrencyEUR)"

definition enum_of_currency :: "Currency \<Rightarrow> error + currency_enum" where
  "enum_of_currency c =
     (if c = CurrencyUSD then Inr USD
      else if c = CurrencyEUR then Inr EUR
      else Inl (StorageError ''invalid input value for enum currency''))"

definition numeric :: "nat \<Rightarrow> nat \<Rightarrow> Decimal \<Rightarrow> error + Decimal" where
  "numeric p s x =
     (let r = decimal_Round s x
      in if 10 ^ (p - s) \<le> \<bar>r\<bar> then Inl (StorageError ''numeric field overflow'')
         else Inr r)"

record AccountRow =
  a_id :: AccountID
  a_user_id :: UserID
  a_balance :: Decimal
  a_currency :: currency_enum

record TransactionRow =
  t_id :: TransactionID
  t_type :: TransactionType
  t_account_id :: AccountID
  t_timestamp :: Time

record TransferDetailsRow =
  tdr_id :: TransferDetailsID
  tdr_transaction_id :: TransactionID
  tdr_recipient_account_id :: AccountID
  tdr_amount :: Decimal
  tdr_currency :: currency_enum

record ExchangeDetailsRow =
  edr_id :: ExchangeDetailsID
  edr_transaction_id :: TransactionID
  edr_source_account_id :: AccountID
  edr_target_account_id :: AccountID
  edr_source_amount :: Decimal
  edr_source_currency :: currency_enum
  edr_target_amount :: Decimal
  edr_target_currency :: currency_enum
  edr_exchange_rate :: Decimal

record LedgerRow =
  l_id :: LedgerRecordID
  l_transaction :: TransactionID
  l_account :: AccountID
  l_amount :: Decimal
  l_currency :: currency_enum
  l_timestamp :: Time

record DB =
  users :: "UserID list"
  accounts :: "AccountRow list"
  transactions :: "TransactionRow list"
  transfer_details :: "TransferDetailsRow list"
  exchange_details :: "ExchangeDetailsRow list"
  ledger :: "LedgerRow list"

section \<open>The unit of work\<close>

text \<open>
  Inside \<^verbatim>\<open>TransactionManager.Do\<close> the repositories work on the transaction bound to
  the context. The state of a unit of work is the database as the transaction sees it,
  whether a transaction is bound (\<^verbatim>\<open>HasContextTransaction\<close>), and the account rows
  locked so far by \<^verbatim>\<open>SELECT ... FOR UPDATE\<close>, in the order of their acquisition.
  A step returns an error or a value, and the state after it.
\<close>

record UoW =
  uow_db :: DB
  uow_tx :: bool
  uow_locked :: "AccountID list"

type_synonym 'a step = "UoW \<Rightarrow> (error + 'a) \<times> UoW"

definition andThen :: "'a step \<Rightarrow> ('a \<Rightarrow> 'b step) \<Rightarrow> 'b step" where
  "andThen m f s = (case m s of (Inl err, s') \<Rightarrow> (Inl err, s') | (Inr x, s') \<Rightarrow> f x s')"

definition failWith :: "error \<Rightarrow> 'a step" where
  "failWith err s = (Inl err, s)"

definition succeed :: "'a \<Rightarrow> 'a step" where
  "succeed x s = (Inr x, s)"

definition lift :: "error + 'a \<Rightarrow> 'a step" where
  "lift r s = (r, s)"

text \<open>
  \<^verbatim>\<open>Do\<close>: begin, run the body on the bound transaction, commit when it returns no
  error, roll back otherwise. The result is the error (if any), the database afterwards and
  the rows that were locked.
\<close>

definition Do :: "DB \<Rightarrow> unit step \<Rightarrow> error option \<times> DB \<times> AccountID list" where
  "Do d fn =
     (case fn \<lparr>uow_db = d, uow_tx = True, uow_locked = []\<rparr> of
        (Inl err, s) \<Rightarrow> (Some err, d, uow_locked s)
      | (Inr u, s) \<Rightarrow> (None, uow_db s, uow_locked s))"

section \<open>Repositories\<close>

definition account_exists :: "DB \<Rightarrow> AccountID \<Rightarrow> bool" where
  "account_exists d i = (i \<in> set (map a_id (accounts d)))"

definition transaction_exists :: "DB \<Rightarrow> TransactionID \<Rightarrow> bool" where
  "transaction_exists d i = (i \<in> set (map t_id (transactions d)))"

text \<open>\<^verbatim>\<open>AccountsRepository.GetForUpdate\<close>: the row found is locked.\<close>

definition GetForUpdate :: "AccountID \<Rightarrow> Account step" where
  "GetForUpdate accountID s =
     (case find (\<lambda>r. a_id r = accountID) (accounts (uow_db s)) of
        None \<Rightarrow> (Inl (AccountNotFound accountID), s)
      | Some r \<Rightarrow>
          ((case NewMoney (a_balance r) (currency_of_enum (a_currency r)) of
              Inl err \<Rightarrow> Inl err
            | Inr balance \<Rightarrow> Inr (NewAccount (a_id r) (a_user_id r) balance)),
           s\<lparr>uow_locked := uow_locked s @ [a_id r]\<rparr>))"

text \<open>\<^verbatim>\<open>AccountsRepository.Save\<close>: insert, or on a conflict on the key update balance and currency.\<close>

definition Save :: "Account \<Rightarrow> unit step" where
  "Save account s =
     (case numeric 19 2 (amount (acc_balance account)) of
        Inl err \<Rightarrow> (Inl err, s)
      | Inr b \<Rightarrow>
     (case enum_of_currency (currency (acc_balance account)) of
        Inl err \<Rightarrow> (Inl err, s)
      | Inr c \<Rightarrow>
          if account_exists (uow_db s) (acc_id account)
          then (Inr (),
                s\<lparr>uow_db := (uow_db s)\<lparr>accounts :=
                     map (\<lambda>r. if a_id r = acc_id account
                               then r\<lparr>a_balance := b, a_currency := c\<rparr> else r)
                       (accounts (uow_db s))\<rparr>\<rparr>)
          else if acc_userID account \<notin> set (users (uow_db s))
          then (Inl (StorageError ''accounts_user_id_fkey''), s)
          else (Inr (),
                s\<lparr>uow_db := (uow_db s)\<lparr>accounts := accounts (uow_db s) @
                     [\<lparr>a_id = acc_id account, a_user_id = acc_userID account,
                       a_balance = b, a_currency = c\<rparr>]\<rparr>\<rparr>)))"

definition Count :: "DB \<Rightarrow> int" where
  "Count d = int (length (accounts d))"

text \<open>The insert statement shared by the transfer and the exchange repository.\<close>

definition insertTransactionRow ::
  "TransactionID \<Rightarrow> TransactionType \<Rightarrow> AccountID \<Rightarrow> Time \<Rightarrow> unit step" where
  "insertTransactionRow i ty a tm s =
     (if \<not> account_exists (uow_db s) a
      then (Inl (StorageError ''transactions_account_id_fkey''), s)
      else (Inr (),
            s\<lparr>uow_db := (uow_db s)\<lparr>transactions := transactions (uow_db s) @
                 [\<lparr>t_id = i, t_type = ty, t_account_id = a, t_timestamp = tm\<rparr>]\<rparr>\<rparr>))"

definition insertLedgerRecord :: "LedgerRecord \<Rightarrow> unit step" where
  "insertLedgerRecord ledgerRecord s =
     (case numeric 19 4 (amount (lr_money ledgerRecord)) of
        Inl err \<Rightarrow> (Inl err, s)
      | Inr a \<Rightarrow>
     (case enum_of_currency (currency (lr_money ledgerRecord)) of
        Inl err \<Rightarrow> (Inl err, s)
      | Inr c \<Rightarrow>
          if \<not> transaction_exists (uow_db s) (lr_transaction ledgerRecord)
          then (Inl (StorageError ''ledger_transaction_fkey''), s)
          else if \<not> account_exists (uow_db s) (lr_account ledgerRecord)
          then (Inl (StorageError ''ledger_account_fkey''), s)
          else (Inr (),
                s\<lparr>uow_db := (uow_db s)\<lparr>ledger := ledger (uow_db s) @
                     [\<lparr>l_id = lr_id ledgerRecord, l_transaction = lr_transaction ledgerRecord,
                       l_account = lr_account ledgerRecord, l_amount = a, l_currency = c,
                       l_timestamp = lr_time ledgerRecord\<rparr>]\<rparr>\<rparr>)))"

subsection \<open>Transfers\<close>

definition transfers_insertTransaction :: "TransferDetails \<Rightarrow> unit step" where
  "transfers_insertTransaction transfer =
     insertTransactionRow (td_TransactionID transfer) TransactionTypeTransfer
       (Sender transfer) (td_time transfer)"

definition transfers_insertDetails :: "TransferDetails \<Rightarrow> unit step" where
  "transfers_insertDetails transfer s =
     (case numeric 19 2 (amount (td_money transfer)) of
        Inl err \<Rightarrow> (Inl err, s)
      | Inr a \<Rightarrow>
     (case enum_of_currency (currency (td_money transfer)) of
        Inl err \<Rightarrow> (Inl err, s)
      | Inr c \<Rightarrow>
          if \<not> 0 < a then (Inl (StorageError ''transfer_positive_amount''), s)
          else if \<not> transaction_exists (uow_db s) (td_TransactionID transfer)
          then (Inl (StorageError ''transfer_details_transaction_id_fkey''), s)
          else if \<not> account_exists (uow_db s) (td_recipient transfer)
          then (Inl (StorageError ''transfer_details_recipient_account_id_fkey''), s)
          else (Inr (),
                s\<lparr>uow_db := (uow_db s)\<lparr>transfer_details := transfer_details (uow_db s) @
                     [\<lparr>tdr_id = td_id transfer, tdr_transaction_id = td_TransactionID transfer,
                       tdr_recipient_account_id = td_recipient transfer,
                       tdr_amount = a, tdr_currency = c\<rparr>]\<rparr>\<rparr>)))"

definition transfers_insertLedgerEntry :: "LedgerEntry \<Rightarrow> unit step" where
  "transfers_insertLedgerEntry ledgerEntry =
     andThen (insertLedgerRecord (fst ledgerEntry)) (\<lambda>u.
       insertLedgerRecord (snd ledgerEntry))"

definition Transfers_Insert :: "LedgerRecordID \<Rightarrow> LedgerRecordID \<Rightarrow> TransferDetails \<Rightarrow> unit step" where
  "Transfers_Insert rid1 rid2 transfer s =
     (if \<not> uow_tx s
      then (Inl (Errorf ''insert command must be called inside of running transaction''), s)
      else andThen (transfers_insertTransaction transfer) (\<lambda>u.
           andThen (transfers_insertDetails transfer) (\<lambda>u.
           andThen (lift (GetLedgerEntry rid1 rid2 transfer)) (\<lambda>ledgerEntry.
           transfers_insertLedgerEntry ledgerEntry))) s)"

subsection \<open>Exchanges\<close>

definition exchanges_insertTransaction :: "ExchangeDetails \<Rightarrow> unit step" where
  "exchanges_insertTransaction exchange =
     insertTransactionRow (ed_TransactionID exchange) TransactionTypeExchange
       (ed_sourceAccount exchange) (ed_time exchange)"

definition exchanges_insertDetails :: "ExchangeDetails \<Rightarrow> unit step" where
  "exchanges_insertDetails exchange s =
     (case ed_ExchangeRate exchange of
        Inl err \<Rightarrow> (Inl err, s)
      | Inr r \<Rightarrow>
     (case numeric 19 2 (amount (ed_sourceAmount exchange)) of
        Inl err \<Rightarrow> (Inl err, s)
      | Inr sa \<Rightarrow>
     (case enum_of_currency (currency (ed_sourceAmount exchange)) of
        Inl err \<Rightarrow> (Inl err, s)
      | Inr sc \<Rightarrow>
     (case numeric 19 2 (amount (ed_targetAmount exchange)) of
        Inl err \<Rightarrow> (Inl err, s)
      | Inr ta \<Rightarrow>
     (case enum_of_currency (currency (ed_targetAmount exchange)) of
        Inl err \<Rightarrow> (Inl err, s)
      | Inr tc \<Rightarrow>
     (case numeric 19 2 r of
        Inl err \<Rightarrow> (Inl err, s)
      | Inr er \<Rightarrow>
          if sc = tc then (Inl (StorageError ''exchange_different_currencies''), s)
          else if \<not> 0 < er then (Inl (StorageError ''exchange_positive_rate''), s)
          else if \<not> 0 < sa then (Inl (StorageError ''exchange_positive_source_amount''), s)
          else if \<not> 0 < ta then (Inl (StorageError ''exchange_positive_target_amount''), s)
          else if \<not> transaction_exists (uow_db s) (ed_TransactionID exchange)
          then (Inl (StorageError ''exchange_details_transaction_id_fkey''), s)
          else if \<not> account_exists (uow_db s) (ed_sourceAccount exchange)
          then (Inl (StorageError ''exchange_details_source_account_id_fkey''), s)
          else if \<not> account_exists (uow_db s) (ed_targetAccount exchange)
          then (Inl (StorageError ''exchange_details_target_account_id_fkey''), s)
          else (Inr (),
                s\<lparr>uow_db := (uow_db s)\<lparr>exchange_details := exchange_details (uow_db s) @
                     [\<lparr>edr_id = ed_id exchange,
                       edr_transaction_id = ed_TransactionID exchange,
                       edr_source_account_id = ed_sourceAccount exchange,
                       edr_target_account_id = ed_targetAccount exchange,
                       edr_source_amount = sa, edr_source_currency = sc,
                       edr_target_amount = ta, edr_target_currency = tc,
                       edr_exchange_rate = er\<rparr>]\<rparr>\<rparr>)))))))"

fun exchanges_insertLedgerEntries :: "LedgerRecord list \<Rightarrow> unit step" where
  "exchanges_insertLedgerEntries [] = succeed ()"
| "exchanges_insertLedgerEntries (record # records) =
     andThen (insertLedgerRecord record) (\<lambda>u. exchanges_insertLedgerEntries records)"

definition Exchanges_Insert ::
  "LedgerRecordID \<Rightarrow> LedgerRecordID \<Rightarrow> LedgerRecordID \<Rightarrow> LedgerRecordID \<Rightarrow> ExchangeDetails
     \<Rightarrow> unit step" where
  "Exchanges_Insert rid1 rid2 rid3 rid4 exchange s =
     (if \<not> uow_tx s
      then (Inl (Errorf ''insert command must be called inside of running transaction''), s)
      else andThen (exchanges_insertTransaction exchange) (\<lambda>u.
           andThen (exchanges_insertDetails exchange) (\<lambda>u.
           andThen (lift (GetLedgerEntries rid1 rid2 rid3 rid4 exchange)) (\<lambda>ledgerEntries.
           exchanges_insertLedgerEntries (Records ledgerEntries)))) s)"

subsection \<open>Ledger\<close>

definition ledger_sum_of_currency :: "DB \<Rightarrow> currency_enum \<Rightarrow> Decimal" where
  "ledger_sum_of_currency d c =
     sum_list (map l_amount (filter (\<lambda>r. l_currency r = c) (ledger d)))"

definition ledger_sum_of_account :: "DB \<Rightarrow> AccountID \<Rightarrow> Decimal" where
  "ledger_sum_of_account d a =
     sum_list (map l_amount (filter (\<lambda>r. l_account r = a) (ledger d)))"

text \<open>The rows of \<^verbatim>\<open>SELECT currency, COALESCE(SUM(amount), 0) FROM ledger GROUP BY currency\<close>.\<close>

definition totals_rows :: "DB \<Rightarrow> (Currency \<times> Decimal) list" where
  "totals_rows d =
     map (\<lambda>c. (currency_of_enum c, ledger_sum_of_currency d c)) (remdups (map l_currency (ledger d)))"

text \<open>
  The loop over the rows fills a Go map from currency to money; the map is kept as the
  list of its entries, one per currency.
\<close>

fun scanTotals :: "(Currency \<times> Decimal) list \<Rightarrow> error + (Currency \<times> Money) list" where
  "scanTotals [] = Inr []"
| "scanTotals ((c, a) # rows) =
     (case NewMoney a c of
        Inl err \<Rightarrow> Inl err
      | Inr money \<Rightarrow>
          (case scanTotals rows of
             Inl err \<Rightarrow> Inl err
           | Inr totals \<Rightarrow> Inr ((c, money) # totals)))"

definition GetTotalBalanceByCurrency :: "DB \<Rightarrow> error + (Currency \<times> Money) list" where
  "GetTotalBalanceByCurrency d = scanTotals (totals_rows d)"

definition GetAccountBalance :: "DB \<Rightarrow> AccountID \<Rightarrow> Currency \<Rightarrow> error + Money" where
  "GetAccountBalance d accountID c = NewMoney (ledger_sum_of_account d accountID) c"

record AccountBalanceMismatch =
  abm_AccountID :: AccountID
  abm_AccountBalance :: Decimal
  abm_LedgerBalance :: Decimal
  abm_Currency :: Currency

definition GetAccountBalanceMismatches :: "DB \<Rightarrow> AccountBalanceMismatch list" where
  "GetAccountBalanceMismatches d =
     map (\<lambda>a. \<lparr>abm_AccountID = a_id a, abm_AccountBalance = a_balance a,
                abm_LedgerBalance = ledger_sum_of_account d (a_id a),
                abm_Currency = currency_of_enum (a_currency a)\<rparr>)
       (filter (\<lambda>a. a_balance a \<noteq> ledger_sum_of_account d (a_id a)) (accounts d))"

section \<open>Invariant checks and reconciliation\<close>

text \<open>
  \<^verbatim>\<open>for currency, total := range totals\<close> visits every entry of the map once, in an
  order Go leaves open. The order is the parameter \<open>rangeOrder\<close>, which rearranges the
  entries.
\<close>

type_synonym RangeOrder = "(Currency \<times> Money) list \<Rightarrow> (Currency \<times> Money) list"

definition CheckLedgerBalanceByCurrency :: "RangeOrder \<Rightarrow> DB \<Rightarrow> error option" where
  "CheckLedgerBalanceByCurrency rangeOrder d =
     (case GetTotalBalanceByCurrency d of
        Inl err \<Rightarrow> Some err
      | Inr totals \<Rightarrow>
          (case find (\<lambda>(c, tot). \<not> IsZero tot) (rangeOrder totals) of
             Some (c, tot) \<Rightarrow> Some (LedgerImbalance c (amount tot))
           | None \<Rightarrow> None))"

definition checkAccountLedgerConsistency :: "DB \<Rightarrow> Account \<Rightarrow> error option" where
  "checkAccountLedgerConsistency d account =
     (case GetAccountBalance d (acc_id account) (currency (acc_balance account)) of
        Inl err \<Rightarrow> Some err
      | Inr ledgerBalance \<Rightarrow>
          if \<not> amount ledgerBalance = amount (acc_balance account)
          then Some (AccountBalanceMismatch (acc_id account) (amount (acc_balance account))
                       (amount ledgerBalance))
          else None)"

definition check :: "(DB \<Rightarrow> error option) \<Rightarrow> unit step" where
  "check f s = (case f (uow_db s) of Some err \<Rightarrow> (Inl err, s) | None \<Rightarrow> (Inr (), s))"

record LedgerCurrencyStatus =
  status_Currency :: Currency
  TotalSum :: Decimal
  IsBalanced :: bool

record AccountMismatch =
  m_AccountID :: AccountID
  m_Currency :: Currency
  m_AccountBalance :: Decimal
  m_LedgerBalance :: Decimal
  Difference :: Decimal

record ReconciliationReport =
  Timestamp :: Time
  IsConsistent :: bool
  LedgerBalances :: "LedgerCurrencyStatus list"
  AccountMismatches :: "AccountMismatch list"
  TotalAccountsChecked :: int

text \<open>The two loops of \<^verbatim>\<open>Reconcile\<close>, each updating the report.\<close>

fun reconcile_totals :: "(Currency \<times> Money) list \<Rightarrow> ReconciliationReport \<Rightarrow> ReconciliationReport" where
  "reconcile_totals [] report = report"
| "reconcile_totals ((c, tot) # rest) report =
     (let status = \<lparr>status_Currency = c, TotalSum = amount tot, IsBalanced = IsZero tot\<rparr>;
          report1 = report\<lparr>LedgerBalances := LedgerBalances report @ [status]\<rparr>;
          report2 = (if \<not> IsBalanced status then report1\<lparr>IsConsistent := False\<rparr> else report1)
      in reconcile_totals rest report2)"

fun reconcile_mismatches :: "AccountBalanceMismatch list \<Rightarrow> ReconciliationReport \<Rightarrow> ReconciliationReport" where
  "reconcile_mismatches [] report = report"
| "reconcile_mismatches (m # rest) report =
     (let mismatch = \<lparr>m_AccountID = abm_AccountID m, m_Currency = abm_Currency m,
                       m_AccountBalance = abm_AccountBalance m,
                       m_LedgerBalance = abm_LedgerBalance m,
                       Difference = abm_AccountBalance m - abm_LedgerBalance m\<rparr>
      in reconcile_mismatches rest
           (report\<lparr>AccountMismatches := AccountMismatches report @ [mismatch],
                   IsConsistent := False\<rparr>))"

text \<open>\<open>now\<close> is the value of \<^verbatim>\<open>time.Now()\<close>.\<close>

definition Reconcile :: "RangeOrder \<Rightarrow> Time \<Rightarrow> DB \<Rightarrow> error + ReconciliationReport" where
  "Reconcile rangeOrder now d =
     (let report = \<lparr>Timestamp = now, IsConsistent = True, LedgerBalances = [],
                     AccountMismatches = [], TotalAccountsChecked = 0\<rparr>
      in case GetTotalBalanceByCurrency d of
           Inl err \<Rightarrow> Inl err
         | Inr totals \<Rightarrow>
             (let report1 = reconcile_totals (rangeOrder totals) report;
                  report2 = reconcile_mismatches (GetAccountBalanceMismatches d) report1
              in Inr (report2\<lparr>TotalAccountsChecked := Count d\<rparr>)))"

section \<open>Application service\<close>

record TransferCommand =
  cmd_From :: AccountID
  cmd_To :: AccountID
  cmd_Money :: Money
  cmd_Time :: Time

record ExchangeCommand =
  cmd_SourceAccount :: AccountID
  cmd_TargetAccount :: AccountID
  cmd_SourceAmount :: Money
  cmd_ExchangeTime :: Time

text \<open>The identifiers an operation draws, in the order of the draws.\<close>

record FreshIDs =
  newDetailsID :: uuid
  newTransactionID :: TransactionID
  newLedgerRecordID1 :: LedgerRecordID
  newLedgerRecordID2 :: LedgerRecordID
  newLedgerRecordID3 :: LedgerRecordID
  newLedgerRecordID4 :: LedgerRecordID

text \<open>
  A domain service run inside a unit of work: its result, and the account objects as the
  call leaves them.
\<close>

definition executeTransfer ::
  "FreshIDs \<Rightarrow> Account \<Rightarrow> Account \<Rightarrow> Money \<Rightarrow> Time
     \<Rightarrow> (TransferDetails \<times> Account \<times> Account) step" where
  "executeTransfer ids from to money now s =
     (case TransferService_Execute (newDetailsID ids) (newTransactionID ids) from to money now of
        (Inl err, from', to') \<Rightarrow> (Inl err, s)
      | (Inr details, from', to') \<Rightarrow> (Inr (details, from', to'), s))"

definition Transfer ::
  "RangeOrder \<Rightarrow> FreshIDs \<Rightarrow> DB \<Rightarrow> TransferCommand \<Rightarrow> error option \<times> DB \<times> AccountID list" where
  "Transfer rangeOrder ids d cmd =
     Do d
       (andThen (GetForUpdate (cmd_From cmd)) (\<lambda>from0.
        andThen (GetForUpdate (cmd_To cmd)) (\<lambda>to0.
        andThen (executeTransfer ids from0 to0 (cmd_Money cmd) (cmd_Time cmd)) (\<lambda>(details, from, to).
        andThen (Transfers_Insert (newLedgerRecordID1 ids) (newLedgerRecordID2 ids) details) (\<lambda>u.
        andThen (Save from) (\<lambda>u.
        andThen (Save to) (\<lambda>u.
        andThen (check (CheckLedgerBalanceByCurrency rangeOrder)) (\<lambda>u.
        andThen (check (\<lambda>db. checkAccountLedgerConsistency db from)) (\<lambda>u.
        check (\<lambda>db. checkAccountLedgerConsistency db to))))))))))"

definition executeExchange ::
  "FreshIDs \<Rightarrow> Account \<Rightarrow> Account \<Rightarrow> Account \<Rightarrow> Account \<Rightarrow> Money \<Rightarrow> ExchangeRate \<Rightarrow> Time
     \<Rightarrow> (ExchangeDetails \<times> Account \<times> Account \<times> Account \<times> Account) step" where
  "executeExchange ids sourceAccount targetAccount cashbookUSD cashbookEUR sourceAmount
       exchangeRate now s =
     (case ExchangeService_Execute (newDetailsID ids) (newTransactionID ids)
             sourceAccount targetAccount cashbookUSD cashbookEUR sourceAmount exchangeRate now of
        (Inl err, accs) \<Rightarrow> (Inl err, s)
      | (Inr details, accs) \<Rightarrow> (Inr (details, accs), s))"

text \<open>\<open>usdToEurRate\<close> is the rate the fixed provider is configured with.\<close>

definition Exchange ::
  "Decimal \<Rightarrow> RangeOrder \<Rightarrow> FreshIDs \<Rightarrow> DB \<Rightarrow> ExchangeCommand
     \<Rightarrow> error option \<times> DB \<times> AccountID list" where
  "Exchange usdToEurRate rangeOrder ids d cmd =
     Do d
       (andThen (GetForUpdate (cmd_SourceAccount cmd)) (\<lambda>source0.
        andThen (GetForUpdate (cmd_TargetAccount cmd)) (\<lambda>target0.
        andThen (GetForUpdate (GetCashbookAccount CurrencyUSD)) (\<lambda>usd0.
        andThen (GetForUpdate (GetCashbookAccount CurrencyEUR)) (\<lambda>eur0.
        andThen (lift (GetRate usdToEurRate (currency (cmd_SourceAmount cmd))
                         (currency (acc_balance target0)))) (\<lambda>exchangeRate.
        andThen (executeExchange ids source0 target0 usd0 eur0 (cmd_SourceAmount cmd)
                   exchangeRate (cmd_ExchangeTime cmd))
          (\<lambda>(details, sourceAccount, targetAccount, usdCashbookAccount, eurCashbookAccount).
        andThen (Exchanges_Insert (newLedgerRecordID1 ids) (newLedgerRecordID2 ids)
                   (newLedgerRecordID3 ids) (newLedgerRecordID4 ids) details) (\<lambda>u.
        andThen (Save sourceAccount) (\<lambda>u.
        andThen (Save targetAccount) (\<lambda>u.
        andThen (Save usdCashbookAccount) (\<lambda>u.
        andThen (Save eurCashbookAccount) (\<lambda>u.
        andThen (check (CheckLedgerBalanceByCurrency rangeOrder)) (\<lambda>u.
        andThen (check (\<lambda>db. checkAccountLedgerConsistency db sourceAccount)) (\<lambda>u.
        andThen (check (\<lambda>db. checkAccountLedgerConsistency db targetAccount)) (\<lambda>u.
        andThen (check (\<lambda>db. checkAccountLedgerConsistency db usdCashbookAccount)) (\<lambda>u.
        check (\<lambda>db. checkAccountLedgerConsistency db eurCashbookAccount)))))))))))))))))"

section \<open>The seeded state\<close>

text \<open>
  The database of the end-to-end scenarios: the cashbook user with the two cashbook
  accounts (USD at \<open>0x10\<close>, EUR at \<open>0x11\<close>), and two registered users, each with a USD
  account and a EUR account funded at registration with 1000 USD and 500 EUR by transfers
  from the cashbooks. The accounts of the first user are 1 (USD) and 2 (EUR), those of the
  second 3 (USD) and 4 (EUR).
\<close>

definition seeded :: DB where
  "seeded =
     \<lparr>users = [1, 100, 200],
      accounts =
        [\<lparr>a_id = 16, a_user_id = 1, a_balance = - 2000, a_currency = USD\<rparr>,
         \<lparr>a_id = 17, a_user_id = 1, a_balance = - 1000, a_currency = EUR\<rparr>,
         \<lparr>a_id = 1, a_user_id = 100, a_balance = 1000, a_currency = USD\<rparr>,
         \<lparr>a_id = 2, a_user_id = 100, a_balance = 500, a_currency = EUR\<rparr>,
         \<lparr>a_id = 3, a_user_id = 200, a_balance = 1000, a_currency = USD\<rparr>,
         \<lparr>a_id = 4, a_user_id = 200, a_balance = 500, a_currency = EUR\<rparr>],
      transactions =
        [\<lparr>t_id = 1001, t_type = TransactionTypeTransfer, t_account_id = 16, t_timestamp = 0\<rparr>,
         \<lparr>t_id = 1002, t_type = TransactionTypeTransfer, t_account_id = 17, t_timestamp = 0\<rparr>,
         \<lparr>t_id = 1003, t_type = TransactionTypeTransfer, t_account_id = 16, t_timestamp = 1\<rparr>,
         \<lparr>t_id = 1004, t_type = TransactionTypeTransfer, t_account_id = 17, t_timestamp = 1\<rparr>],
      transfer_details =
        [\<lparr>tdr_id = 1101, tdr_transaction_id = 1001, tdr_recipient_account_id = 1,
          tdr_amount = 1000, tdr_currency = USD\<rparr>,
         \<lparr>tdr_id = 1102, tdr_transaction_id = 1002, tdr_recipient_account_id = 2,
          tdr_amount = 500, tdr_currency = EUR\<rparr>,
         \<lparr>tdr_id = 1103, tdr_transaction_id = 1003, tdr_recipient_account_id = 3,
          tdr_amount = 1000, tdr_currency = USD\<rparr>,
         \<lparr>tdr_id = 1104, tdr_transaction_id = 1004, tdr_recipient_account_id = 4,
          tdr_amount = 500, tdr_currency = EUR\<rparr>],
      exchange_details = [],
      ledger =
        [\<lparr>l_id = 1201, l_transaction = 1001, l_account = 16, l_amount = - 1000,
          l_currency = USD, l_timestamp = 0\<rparr>,
         \<lparr>l_id = 1202, l_transaction = 1001, l_account = 1, l_amount = 1000,
          l_currency = USD, l_timestamp = 0\<rparr>,
         \<lparr>l_id = 1203, l_transaction = 1002, l_account = 17, l_amount = - 500,
          l_currency = EUR, l_timestamp = 0\<rparr>,
         \<lparr>l_id = 1204, l_transaction = 1002, l_account = 2, l_amount = 500,
          l_currency = EUR, l_timestamp = 0\<rparr>,
         \<lparr>l_id = 1205, l_transaction = 1003, l_account = 16, l_amount = - 1000,
          l_currency = USD, l_timestamp = 1\<rparr>,
         \<lparr>l_id = 1206, l_transaction = 1003, l_account = 3, l_amount = 1000,
          l_currency = USD, l_timestamp = 1\<rparr>,
         \<lparr>l_id = 1207, l_transaction = 1004, l_account = 17, l_amount = - 500,
          l_currency = EUR, l_timestamp = 1\<rparr>,
         \<lparr>l_id = 1208, l_transaction = 1004, l_account = 4, l_amount = 500,
          l_currency = EUR, l_timestamp = 1\<rparr>]\<rparr>"

text \<open>Identifiers for one more operation.\<close>

definition fresh :: FreshIDs where
  "fresh = \<lparr>newDetailsID = 2001, newTransactionID = 2002, newLedgerRecordID1 = 2003,
             newLedgerRecordID2 = 2004, newLedgerRecordID3 = 2005, newLedgerRecordID4 = 2006\<rparr>"

section \<open>Sums of ledger records\<close>


section \<open>Properties of the decimal operations\<close>

lemma floor_rat_numeral_divide [simp]:
  "\<lfloor>(numeral a :: rat) / numeral b\<rfloor> = numeral a div numeral b"
  by (metis floor_divide_of_int_eq of_int_numeral)

lemma floor_rat_one_divide [simp]:
  "\<lfloor>(1 :: rat) / numeral b\<rfloor> = 1 div numeral b"
  by (metis floor_divide_of_int_eq of_int_numeral of_int_1)

lemma decimal_Round_multiple: "\<exists>n::int. decimal_Round p d = of_int n / 10 ^ p"
proof -
  have "decimal_Round p d = of_int ((if d < 0 then - 1 else if d = 0 then 0 else 1) * \<lfloor>\<bar>d\<bar> * 10 ^ p + 1 / 2\<rfloor>) / 10 ^ p"
    by (simp add: decimal_Round_def sgn_if)
  then show ?thesis by blast
qed

lemma decimal_Round_error: "\<bar>decimal_Round p d - d\<bar> \<le> 1 / (2 * 10 ^ p)"
proof -
  define y where "y = \<bar>d\<bar> * 10 ^ p"
  define F where "F = \<lfloor>y + 1 / 2\<rfloor>"
  have F1: "of_int F \<le> y + 1 / 2" unfolding F_def by (rule of_int_floor_le)
  have F2: "y + 1 / 2 < of_int F + 1" unfolding F_def by (rule floor_correct[THEN conjunct2, simplified] ) 
  have pos: "(0::rat) < 10 ^ p" by simp
  have d: "d = sgn d * y / 10 ^ p" unfolding y_def by (simp add: sgn_if)
  have "decimal_Round p d - d = sgn d * (of_int F - y) / 10 ^ p"
    unfolding decimal_Round_def F_def y_def by (simp add: sgn_if field_simps)
  then have "\<bar>decimal_Round p d - d\<bar> = \<bar>sgn d\<bar> * \<bar>of_int F - y\<bar> / 10 ^ p"
    by (simp add: abs_mult)
  also have "\<dots> \<le> 1 * (1 / 2) / 10 ^ p"
  proof -
    have "\<bar>sgn d\<bar> \<le> 1" by (simp add: sgn_if)
    moreover have "\<bar>of_int F - y\<bar> \<le> 1 / 2" using F1 F2 by linarith
    ultimately have "\<bar>sgn d\<bar> * \<bar>of_int F - y\<bar> \<le> 1 * (1 / 2)"
      by (intro mult_mono) auto
    then show ?thesis using pos by (intro divide_right_mono) auto
  qed
  finally show ?thesis by simp
qed

lemma decimal_Round_tie:
  assumes "\<bar>decimal_Round p d - d\<bar> = 1 / (2 * 10 ^ p)"
  shows "\<bar>d\<bar> < \<bar>decimal_Round p d\<bar>"
proof -
  define y where "y = \<bar>d\<bar> * 10 ^ p"
  define F where "F = \<lfloor>y + 1 / 2\<rfloor>"
  have F2: "y + 1 / 2 < of_int F + 1" unfolding F_def by (rule floor_correct[THEN conjunct2, simplified])
  have pos: "(0::rat) < 10 ^ p" by simp
  have ynn: "0 \<le> y" unfolding y_def by simp
  have Fnn: "0 \<le> F" unfolding F_def using ynn by simp
  have dne: "d \<noteq> 0" using assms by (auto simp: decimal_Round_def)
  have "decimal_Round p d - d = sgn d * (of_int F - y) / 10 ^ p"
    unfolding decimal_Round_def F_def y_def by (simp add: sgn_if field_simps)
  then have "\<bar>decimal_Round p d - d\<bar> = \<bar>of_int F - y\<bar> / 10 ^ p"
    using dne by (simp add: abs_mult sgn_if)
  with assms have "\<bar>of_int F - y\<bar> / 10 ^ p = 1 / (2 * 10 ^ p)" by simp
  then have "\<bar>of_int F - y\<bar> = 1 / 2" using pos by (simp add: field_simps)
  with F2 have gt: "y < of_int F" by (simp add: abs_if split: if_splits)
  have "\<bar>decimal_Round p d\<bar> = of_int F / 10 ^ p"
    unfolding decimal_Round_def F_def y_def using dne Fnn[unfolded F_def y_def]
    by (simp add: abs_mult sgn_if)
  moreover have "\<bar>d\<bar> = y / 10 ^ p" unfolding y_def by simp
  ultimately show ?thesis using gt pos by (simp add: divide_strict_right_mono)
qed


lemma decimal_Round_nonneg: "0 \<le> d \<Longrightarrow> 0 \<le> decimal_Round p d"
  by (simp add: decimal_Round_def sgn_if)

lemma decimal_Round_lower:
  assumes "0 \<le> d" and "of_int n / 10 ^ p \<le> d"
  shows "of_int n / 10 ^ p \<le> decimal_Round p d"
proof -
  have "of_int n \<le> d * 10 ^ p" using assms(2) by (simp add: field_simps)
  then have "of_int n \<le> \<bar>d\<bar> * 10 ^ p + 1 / 2" using assms(1) by simp
  then have "n \<le> \<lfloor>\<bar>d\<bar> * 10 ^ p + 1 / 2\<rfloor>" by (simp add: le_floor_iff)
  then have "(of_int n :: rat) \<le> of_int \<lfloor>\<bar>d\<bar> * 10 ^ p + 1 / 2\<rfloor>" by simp
  then have le: "(of_int n :: rat) / 10 ^ p \<le> of_int \<lfloor>\<bar>d\<bar> * 10 ^ p + 1 / 2\<rfloor> / 10 ^ p"
    by (intro divide_right_mono) auto
  show ?thesis
  proof (cases "d = 0")
    case True
    with assms(2) show ?thesis by (simp add: decimal_Round_def)
  next
    case False
    with assms(1) have "sgn d = 1" by (simp add: sgn_if)
    with le show ?thesis by (simp add: decimal_Round_def)
  qed
qed

lemma inverse_rate_positive:
  assumes "0 < k" and "k \<le> 2000000"
  shows "0 < decimal_Round 6 (decimal_Round 16 (1 / k))"
proof -
  have "1 / 2000000 \<le> 1 / k" using assms by (simp add: field_simps)
  then have a: "of_int 5000000000 / 10 ^ 16 \<le> 1 / k" by simp
  have nn: "0 \<le> 1 / k" using assms by simp
  have b: "of_int 5000000000 / 10 ^ 16 \<le> decimal_Round 16 (1 / k)"
    by (rule decimal_Round_lower [OF nn a])
  then have c: "1 / 2000000 \<le> decimal_Round 16 (1 / k)" by simp
  have nn2: "0 \<le> decimal_Round 16 (1 / k)" by (rule decimal_Round_nonneg [OF nn])
  have "1 \<le> \<bar>decimal_Round 16 (1 / k)\<bar> * 10 ^ 6 + 1 / 2" using c nn2 by simp
  then have "1 \<le> \<lfloor>\<bar>decimal_Round 16 (1 / k)\<bar> * 10 ^ 6 + 1 / 2\<rfloor>" by (simp add: le_floor_iff)
  moreover have "sgn (decimal_Round 16 (1 / k)) = 1" using c by (simp add: sgn_if)
  ultimately show ?thesis by (simp add: decimal_Round_def)
qed

lemmas money_defs = NewMoney_def CheckIsNotEqualCurrencies_def Add_def Sub_def ToNegative_def
  IsNegative_def IsZero_def IsValid_def CurrencyUSD_def CurrencyEUR_def

section \<open>Account debits\<close>

text \<open>
  Claim C2. For every account \<open>A\<close> and every money \<open>m\<close> of \<open>A\<close>'s currency,
  \<open>Debit\<close> fails exactly when \<open>A\<close> is not a cashbook account and its balance is
  below \<open>m\<close>, and then with \<open>InsufficientFunds\<close>; otherwise it succeeds and the balance
  becomes the old balance minus \<open>m\<close>. A debit of the whole balance succeeds and leaves
  zero; a cashbook account is debited whatever its balance.
\<close>

theorem Debit_same_currency:
  "currency m = currency (acc_balance A) \<Longrightarrow>
     ((\<exists>err. Debit A m = Inl err) \<longleftrightarrow> (\<not> IsCashbook A \<and> amount (acc_balance A) < amount m)) \<and>
     (\<not> IsCashbook A \<and> amount (acc_balance A) < amount m \<longrightarrow>
        Debit A m = Inl (InsufficientFunds (acc_id A) (amount m) (amount (acc_balance A)))) \<and>
     (IsCashbook A \<or> amount m \<le> amount (acc_balance A) \<longrightarrow>
        Debit A m = Inr (A\<lparr>acc_balance :=
          \<lparr>amount = amount (acc_balance A) - amount m, currency = currency (acc_balance A)\<rparr>\<rparr>)) \<and>
     (amount m = amount (acc_balance A) \<longrightarrow>
        Debit A m = Inr (A\<lparr>acc_balance := \<lparr>amount = 0, currency = currency (acc_balance A)\<rparr>\<rparr>))"
  by (auto simp: Debit_def money_defs)

theorem Debit_same_currency_witness:
  "Debit \<lparr>acc_id = 5, acc_userID = 7, acc_balance = \<lparr>amount = 100, currency = ''USD''\<rparr>\<rparr>
         \<lparr>amount = 100, currency = ''USD''\<rparr>
     = Inr \<lparr>acc_id = 5, acc_userID = 7, acc_balance = \<lparr>amount = 0, currency = ''USD''\<rparr>\<rparr> \<and>
   Debit \<lparr>acc_id = 5, acc_userID = 7, acc_balance = \<lparr>amount = 100, currency = ''USD''\<rparr>\<rparr>
         \<lparr>amount = 101, currency = ''USD''\<rparr>
     = Inl (InsufficientFunds 5 101 100) \<and>
   Debit \<lparr>acc_id = CashbookUSD, acc_userID = CashbookUserID,
          acc_balance = \<lparr>amount = 0, currency = ''USD''\<rparr>\<rparr>
         \<lparr>amount = 1000, currency = ''USD''\<rparr>
     = Inr \<lparr>acc_id = CashbookUSD, acc_userID = CashbookUserID,
            acc_balance = \<lparr>amount = - 1000, currency = ''USD''\<rparr>\<rparr>"
  using
    Debit_same_currency [of "\<lparr>amount = 100, currency = ''USD''\<rparr>"
      "\<lparr>acc_id = 5, acc_userID = 7, acc_balance = \<lparr>amount = 100, currency = ''USD''\<rparr>\<rparr>"]
    Debit_same_currency [of "\<lparr>amount = 101, currency = ''USD''\<rparr>"
      "\<lparr>acc_id = 5, acc_userID = 7, acc_balance = \<lparr>amount = 100, currency = ''USD''\<rparr>\<rparr>"]
    Debit_same_currency [of "\<lparr>amount = 1000, currency = ''USD''\<rparr>"
      "\<lparr>acc_id = CashbookUSD, acc_userID = CashbookUserID,
         acc_balance = \<lparr>amount = 0, currency = ''USD''\<rparr>\<rparr>"]
  by (simp add: IsCashbook_def CashbookUserID_def)

text \<open>
  Claim C10. When the currency of \<open>m\<close> differs from the account's, \<open>Debit\<close> compares
  the raw amounts first: a non-cashbook account whose balance is below the amount of \<open>m\<close>
  gets \<open>InsufficientFunds\<close>; \<open>CurrencyMismatch\<close> is returned exactly when the account is
  a cashbook or its balance is at least the amount.
\<close>

theorem Debit_other_currency:
  "currency m \<noteq> currency (acc_balance A) \<Longrightarrow>
     (\<not> IsCashbook A \<and> amount (acc_balance A) < amount m \<longrightarrow>
        Debit A m = Inl (InsufficientFunds (acc_id A) (amount m) (amount (acc_balance A)))) \<and>
     (IsCashbook A \<or> amount m \<le> amount (acc_balance A) \<longrightarrow>
        Debit A m = Inl (CurrencyMismatch (currency (acc_balance A)) (currency m))) \<and>
     ((\<exists>c1 c2. Debit A m = Inl (CurrencyMismatch c1 c2)) \<longleftrightarrow>
        (IsCashbook A \<or> amount m \<le> amount (acc_balance A)))"
  by (auto simp: Debit_def money_defs)

theorem Debit_other_currency_witness:
  "Debit \<lparr>acc_id = 5, acc_userID = 7, acc_balance = \<lparr>amount = 100, currency = ''USD''\<rparr>\<rparr>
         \<lparr>amount = 101, currency = ''EUR''\<rparr>
     = Inl (InsufficientFunds 5 101 100) \<and>
   Debit \<lparr>acc_id = 5, acc_userID = 7, acc_balance = \<lparr>amount = 100, currency = ''USD''\<rparr>\<rparr>
         \<lparr>amount = 100, currency = ''EUR''\<rparr>
     = Inl (CurrencyMismatch ''USD'' ''EUR'')"
  using
    Debit_other_currency [of "\<lparr>amount = 101, currency = ''EUR''\<rparr>"
      "\<lparr>acc_id = 5, acc_userID = 7, acc_balance = \<lparr>amount = 100, currency = ''USD''\<rparr>\<rparr>"]
    Debit_other_currency [of "\<lparr>amount = 100, currency = ''EUR''\<rparr>"
      "\<lparr>acc_id = 5, acc_userID = 7, acc_balance = \<lparr>amount = 100, currency = ''USD''\<rparr>\<rparr>"]
  by (simp add: IsCashbook_def CashbookUserID_def)

section \<open>Exchange rates and the fixed provider\<close>

text \<open>
  Claim C3. For every exchange rate \<open>r\<close> built by \<open>NewExchangeRate\<close> from \<open>f\<close>, \<open>t\<close> and
  \<open>k\<close>, and every money \<open>x\<close>: \<open>Convert\<close> fails exactly when the currency of \<open>x\<close> is
  not \<open>f\<close>, and then with \<open>CurrencyMismatch\<close>; otherwise it returns money in \<open>t\<close> whose
  amount is \<open>amount x * k\<close> rounded half-up to two decimal places: a multiple of 0.01, at
  most 0.005 away from the product, and the one of larger magnitude on a tie.
\<close>

theorem Convert_rounds_half_up:
  "NewExchangeRate f t k = Inr r \<Longrightarrow>
     ((\<exists>c1 c2. Convert r x = Inl (CurrencyMismatch c1 c2)) \<longleftrightarrow> currency x \<noteq> f) \<and>
     ((\<exists>err. Convert r x = Inl err) \<longleftrightarrow> currency x \<noteq> f) \<and>
     (currency x \<noteq> f \<longrightarrow> Convert r x = Inl (CurrencyMismatch f (currency x))) \<and>
     (currency x = f \<longrightarrow>
        Convert r x = Inr \<lparr>amount = decimal_Round 2 (amount x * k), currency = t\<rparr> \<and>
        (\<exists>n::int. decimal_Round 2 (amount x * k) = of_int n / 100) \<and>
        \<bar>decimal_Round 2 (amount x * k) - amount x * k\<bar> \<le> 1 / 200 \<and>
        (\<bar>decimal_Round 2 (amount x * k) - amount x * k\<bar> = 1 / 200 \<longrightarrow>
           \<bar>amount x * k\<bar> < \<bar>decimal_Round 2 (amount x * k)\<bar>))"
proof -
  assume new: "NewExchangeRate f t k = Inr r"
  then have r: "r = \<lparr>rate_from = f, rate_to = t, rate = k\<rparr>" and valid: "IsValid t"
    by (auto simp: NewExchangeRate_def split: if_splits)
  have multiple: "\<exists>n::int. decimal_Round 2 (amount x * k) = of_int n / 100"
    using decimal_Round_multiple [of 2 "amount x * k"] by simp
  have close: "\<bar>decimal_Round 2 (amount x * k) - amount x * k\<bar> \<le> 1 / 200"
    using decimal_Round_error [of 2 "amount x * k"] by simp
  have tie: "\<bar>decimal_Round 2 (amount x * k) - amount x * k\<bar> = 1 / 200 \<longrightarrow>
      \<bar>amount x * k\<bar> < \<bar>decimal_Round 2 (amount x * k)\<bar>"
    using decimal_Round_tie [of 2 "amount x * k"] by simp
  show ?thesis
    using valid multiple close tie by (auto simp: r Convert_def NewMoney_def)
qed

theorem Convert_rounds_half_up_witness:
  "NewExchangeRate ''USD'' ''EUR'' (92 / 100)
     = Inr \<lparr>rate_from = ''USD'', rate_to = ''EUR'', rate = 92 / 100\<rparr> \<and>
   Convert \<lparr>rate_from = ''USD'', rate_to = ''EUR'', rate = 92 / 100\<rparr>
       \<lparr>amount = 12345 / 100, currency = ''USD''\<rparr>
     = Inr \<lparr>amount = 11357 / 100, currency = ''EUR''\<rparr> \<and>
   Convert \<lparr>rate_from = ''USD'', rate_to = ''EUR'', rate = 92 / 100\<rparr>
       \<lparr>amount = 12345 / 100, currency = ''EUR''\<rparr>
     = Inl (CurrencyMismatch ''USD'' ''EUR'')"
proof -
  have new: "NewExchangeRate ''USD'' ''EUR'' (92 / 100)
      = Inr \<lparr>rate_from = ''USD'', rate_to = ''EUR'', rate = 92 / 100\<rparr>"
    by (simp add: NewExchangeRate_def money_defs)
  show ?thesis
    using new
      Convert_rounds_half_up [OF new, of "\<lparr>amount = 12345 / 100, currency = ''USD''\<rparr>"]
      Convert_rounds_half_up [OF new, of "\<lparr>amount = 12345 / 100, currency = ''EUR''\<rparr>"]
    by (simp add: decimal_Round_def)
qed

text \<open>
  Claim C4, as amended. With the provider configured with a rate \<open>k > 0\<close>:
  a request for a currency to itself fails with \<open>SameCurrencyExchangeRate\<close>; USD to EUR
  returns the rate \<open>k\<close>; EUR to USD divides 1 by \<open>k\<close> (the decimal division keeps 16
  digits after the point) and rounds the quotient half-up to 6 decimal places, returning
  that rate when it is positive, which it is for every \<open>k \<le> 2000000\<close>, and failing with
  \<open>InvalidExchangeRate\<close> when it is zero; every other pair fails with
  \<open>ExchangeRateNotFound\<close>. With \<open>k = 0.92\<close> the inverse rate is 1.086957 and 92 EUR
  convert to 100.00 USD.
\<close>

theorem GetRate_cases:
  "0 < k \<Longrightarrow>
     GetRate k c c = Inl (SameCurrencyExchangeRate c) \<and>
     GetRate k CurrencyUSD CurrencyEUR
       = Inr \<lparr>rate_from = CurrencyUSD, rate_to = CurrencyEUR, rate = k\<rparr> \<and>
     decimal_Div 1 k = Inr (decimal_Round 16 (1 / k)) \<and>
     GetRate k CurrencyEUR CurrencyUSD
       = (if decimal_Round 6 (decimal_Round 16 (1 / k)) = 0 then Inl (InvalidExchangeRate 0)
          else Inr \<lparr>rate_from = CurrencyEUR, rate_to = CurrencyUSD,
                    rate = decimal_Round 6 (decimal_Round 16 (1 / k))\<rparr>) \<and>
     (k \<le> 2000000 \<longrightarrow>
        GetRate k CurrencyEUR CurrencyUSD
          = Inr \<lparr>rate_from = CurrencyEUR, rate_to = CurrencyUSD,
                 rate = decimal_Round 6 (decimal_Round 16 (1 / k))\<rparr>) \<and>
     (f \<noteq> t \<and> \<not> (f = CurrencyUSD \<and> t = CurrencyEUR) \<and> \<not> (f = CurrencyEUR \<and> t = CurrencyUSD) \<longrightarrow>
        GetRate k f t = Inl (ExchangeRateNotFound f t)) \<and>
     GetRate (92 / 100) CurrencyEUR CurrencyUSD
       = Inr \<lparr>rate_from = CurrencyEUR, rate_to = CurrencyUSD, rate = 1086957 / 1000000\<rparr> \<and>
     Convert \<lparr>rate_from = CurrencyEUR, rate_to = CurrencyUSD, rate = 1086957 / 1000000\<rparr>
         \<lparr>amount = 92, currency = CurrencyEUR\<rparr>
       = Inr \<lparr>amount = 100, currency = CurrencyUSD\<rparr>"
proof -
  assume k: "0 < k"
  have nn: "0 \<le> decimal_Round 6 (decimal_Round 16 (1 / k))"
    using k by (intro decimal_Round_nonneg) simp
  have inv: "GetRate k CurrencyEUR CurrencyUSD
       = (if decimal_Round 6 (decimal_Round 16 (1 / k)) = 0 then Inl (InvalidExchangeRate 0)
          else Inr \<lparr>rate_from = CurrencyEUR, rate_to = CurrencyUSD,
                    rate = decimal_Round 6 (decimal_Round 16 (1 / k))\<rparr>)"
    using k nn
    by (auto simp: GetRate_def decimal_Div_def DivisionPrecision_def NewExchangeRate_def money_defs)
  have small: "k \<le> 2000000 \<longrightarrow> decimal_Round 6 (decimal_Round 16 (1 / k)) \<noteq> 0"
    using inverse_rate_positive [OF k] by auto
  have ex: "GetRate (92 / 100) CurrencyEUR CurrencyUSD
       = Inr \<lparr>rate_from = CurrencyEUR, rate_to = CurrencyUSD, rate = 1086957 / 1000000\<rparr>"
    by (simp add: GetRate_def decimal_Div_def DivisionPrecision_def NewExchangeRate_def money_defs
        decimal_Round_def)
  have conv: "Convert \<lparr>rate_from = CurrencyEUR, rate_to = CurrencyUSD, rate = 1086957 / 1000000\<rparr>
            \<lparr>amount = 92, currency = CurrencyEUR\<rparr>
          = Inr \<lparr>amount = 100, currency = CurrencyUSD\<rparr>"
    by (simp add: Convert_def money_defs decimal_Round_def)
  have usd: "GetRate k CurrencyUSD CurrencyEUR
       = Inr \<lparr>rate_from = CurrencyUSD, rate_to = CurrencyEUR, rate = k\<rparr>"
    using k by (simp add: GetRate_def NewExchangeRate_def money_defs)
  have same: "GetRate k c c = Inl (SameCurrencyExchangeRate c)"
    by (simp add: GetRate_def)
  have other: "f \<noteq> t \<and> \<not> (f = CurrencyUSD \<and> t = CurrencyEUR) \<and> \<not> (f = CurrencyEUR \<and> t = CurrencyUSD) \<longrightarrow>
        GetRate k f t = Inl (ExchangeRateNotFound f t)"
    by (auto simp: GetRate_def)
  have div: "decimal_Div 1 k = Inr (decimal_Round 16 (1 / k))"
    using k by (simp add: decimal_Div_def DivisionPrecision_def)
  show ?thesis
    using same usd div inv small ex conv other by simp
qed

theorem GetRate_cases_witness:
  "GetRate (92 / 100) ''GBP'' ''GBP'' = Inl (SameCurrencyExchangeRate ''GBP'') \<and>
   GetRate (92 / 100) ''USD'' ''EUR''
     = Inr \<lparr>rate_from = ''USD'', rate_to = ''EUR'', rate = 92 / 100\<rparr> \<and>
   GetRate (92 / 100) ''EUR'' ''USD''
     = Inr \<lparr>rate_from = ''EUR'', rate_to = ''USD'', rate = 1086957 / 1000000\<rparr> \<and>
   GetRate (92 / 100) ''USD'' ''GBP'' = Inl (ExchangeRateNotFound ''USD'' ''GBP'') \<and>
   Convert \<lparr>rate_from = ''EUR'', rate_to = ''USD'', rate = 1086957 / 1000000\<rparr>
       \<lparr>amount = 92, currency = ''EUR''\<rparr>
     = Inr \<lparr>amount = 100, currency = ''USD''\<rparr>"
  using GetRate_cases [of "92 / 100" "''GBP''" "''USD''" "''GBP''"]
  by (simp add: CurrencyUSD_def CurrencyEUR_def decimal_Round_def)

text \<open>
  The claim as stated fails for \<open>k = 2000001\<close>: the inverse rounds to zero, which is not
  a rate, and the request fails. It also fails where the 16 digits of the division decide
  the sixth: for \<open>k = 666666.666666666666667\<close> the quotient \<open>1 / k\<close> rounds to
  0.000001, and the rate returned is 0.000002.
\<close>

theorem GetRate_inverse_counterexample:
  "(0::rat) < 2000001 \<and>
   decimal_Round 6 (1 / 2000001) = 0 \<and>
   GetRate 2000001 CurrencyEUR CurrencyUSD = Inl (InvalidExchangeRate 0) \<and>
   decimal_Round 6 (1 / (666666666666666666667 / 10 ^ 15)) = 1 / 1000000 \<and>
   GetRate (666666666666666666667 / 10 ^ 15) CurrencyEUR CurrencyUSD
     = Inr \<lparr>rate_from = CurrencyEUR, rate_to = CurrencyUSD, rate = 2 / 1000000\<rparr>"
  by (simp add: GetRate_def decimal_Div_def DivisionPrecision_def NewExchangeRate_def money_defs
      decimal_Round_def)

section \<open>Ledger entries\<close>


section \<open>The exchange domain service\<close>

lemmas account_defs = Debit_def Credit_def IsCashbook_def CashbookUserID_def

lemma Debit_Inr:
  "Debit a m = Inr a' \<Longrightarrow>
     currency m = currency (acc_balance a) \<and>
     a' = a\<lparr>acc_balance :=
            \<lparr>amount = amount (acc_balance a) - amount m, currency = currency (acc_balance a)\<rparr>\<rparr>"
  by (auto simp: Debit_def Sub_def CheckIsNotEqualCurrencies_def split: if_splits)

lemma Credit_Inr:
  "Credit a m = Inr a' \<Longrightarrow>
     currency m = currency (acc_balance a) \<and>
     a' = a\<lparr>acc_balance :=
            \<lparr>amount = amount (acc_balance a) + amount m, currency = currency (acc_balance a)\<rparr>\<rparr>"
  by (auto simp: Credit_def Add_def CheckIsNotEqualCurrencies_def split: if_splits)

lemma Convert_Inr:
  "Convert r x = Inr y \<Longrightarrow>
     currency x = rate_from r \<and> IsValid (rate_to r) \<and>
     y = \<lparr>amount = decimal_Round 2 (amount x * rate r), currency = rate_to r\<rparr>"
  by (auto simp: Convert_def NewMoney_def split: if_splits)

lemma Execute_validated:
  assumes "0 < amount sa"
    and "currency (acc_balance src) \<noteq> currency (acc_balance tgt)"
    and "rate_from r = currency sa"
    and "rate_to r = currency (acc_balance tgt)"
    and "Convert r sa = Inr ta"
  shows "ExchangeService_Execute newID newTxID src tgt usd eur sa r now =
      (case Debit src sa of
        Inl err \<Rightarrow> (Inl err, src, tgt, usd, eur)
      | Inr source' \<Rightarrow>
      (case Credit tgt ta of
        Inl err \<Rightarrow> (Inl err, source', tgt, usd, eur)
      | Inr target' \<Rightarrow>
      (case Credit (getCashbookForCurrency usd eur (currency sa)) sa of
        Inl err \<Rightarrow> (Inl err, source', target', usd, eur)
      | Inr sourceCashbook' \<Rightarrow>
      (case setCashbookForCurrency usd eur (currency sa) sourceCashbook' of
        (usd1, eur1) \<Rightarrow>
      (case Debit (getCashbookForCurrency usd1 eur1 (currency ta)) ta of
        Inl err \<Rightarrow> (Inl err, source', target', usd1, eur1)
      | Inr targetCashbook' \<Rightarrow>
      (case setCashbookForCurrency usd1 eur1 (currency ta) targetCashbook' of
        (usd2, eur2) \<Rightarrow>
      (case NewExchangeDetails newID newTxID (acc_id source') (acc_id target') sa ta now of
        Inl err \<Rightarrow> (Inl err, source', target', usd2, eur2)
      | Inr exchange \<Rightarrow> (Inr exchange, source', target', usd2, eur2))))))))"
  using assms
  by (simp add: ExchangeService_Execute_def IsNegative_def IsZero_def CalculateExchangeAmount_def)

lemma Execute_rejects:
  "amount sa < 0 \<Longrightarrow>
      ExchangeService_Execute newID newTxID src tgt usd eur sa r now
        = (Inl (NegativeExchange sa), src, tgt, usd, eur)"
  "amount sa = 0 \<Longrightarrow>
      ExchangeService_Execute newID newTxID src tgt usd eur sa r now
        = (Inl (Errorf ''exchange amount cannot be zero''), src, tgt, usd, eur)"
  "0 < amount sa \<Longrightarrow> currency (acc_balance src) = currency (acc_balance tgt) \<Longrightarrow>
      ExchangeService_Execute newID newTxID src tgt usd eur sa r now
        = (Inl (SameCurrencyExchange (currency (acc_balance src))), src, tgt, usd, eur)"
  "0 < amount sa \<Longrightarrow> currency (acc_balance src) \<noteq> currency (acc_balance tgt) \<Longrightarrow>
    rate_from r \<noteq> currency sa \<Longrightarrow>
      ExchangeService_Execute newID newTxID src tgt usd eur sa r now
        = (Inl (CurrencyMismatch (rate_from r) (currency sa)), src, tgt, usd, eur)"
  "0 < amount sa \<Longrightarrow> currency (acc_balance src) \<noteq> currency (acc_balance tgt) \<Longrightarrow>
    rate_from r = currency sa \<Longrightarrow> rate_to r \<noteq> currency (acc_balance tgt) \<Longrightarrow>
      ExchangeService_Execute newID newTxID src tgt usd eur sa r now
        = (Inl (CurrencyMismatch (rate_to r) (currency (acc_balance tgt))), src, tgt, usd, eur)"
  "0 < amount sa \<Longrightarrow> currency (acc_balance src) \<noteq> currency (acc_balance tgt) \<Longrightarrow>
    rate_from r = currency sa \<Longrightarrow> rate_to r = currency (acc_balance tgt) \<Longrightarrow>
    Convert r sa = Inl err \<Longrightarrow>
      ExchangeService_Execute newID newTxID src tgt usd eur sa r now
        = (Inl err, src, tgt, usd, eur)"
  by (simp_all add: ExchangeService_Execute_def IsNegative_def IsZero_def CalculateExchangeAmount_def)

lemma Execute_success:
  assumes valid: "IsValid (currency sa)"
    and ex: "ExchangeService_Execute newID newTxID src tgt usd eur sa r now
        = (Inr details, src', tgt', usd', eur')"
  shows "\<exists>ta. Convert r sa = Inr ta \<and>
         Debit src sa = Inr src' \<and>
         Credit tgt ta = Inr tgt' \<and>
         (if currency sa = CurrencyUSD
          then Credit usd sa = Inr usd' \<and> Debit eur ta = Inr eur'
          else Credit eur sa = Inr eur' \<and> Debit usd ta = Inr usd') \<and>
         NewExchangeDetails newID newTxID (acc_id src) (acc_id tgt) sa ta now = Inr details"
proof -
  have nneg: "\<not> amount sa < 0"
  proof
    assume "amount sa < 0"
    from Execute_rejects(1) [OF this] ex show False by simp
  qed
  have nzero: "amount sa \<noteq> 0"
  proof
    assume "amount sa = 0"
    from Execute_rejects(2) [OF this] ex show False by simp
  qed
  have pos: "0 < amount sa" using nneg nzero by simp
  have diff: "currency (acc_balance src) \<noteq> currency (acc_balance tgt)"
  proof
    assume "currency (acc_balance src) = currency (acc_balance tgt)"
    from Execute_rejects(3) [OF pos this] ex show False by simp
  qed
  have rf: "rate_from r = currency sa"
  proof (rule ccontr)
    assume "rate_from r \<noteq> currency sa"
    from Execute_rejects(4) [OF pos diff this] ex show False by simp
  qed
  have rt: "rate_to r = currency (acc_balance tgt)"
  proof (rule ccontr)
    assume "rate_to r \<noteq> currency (acc_balance tgt)"
    from Execute_rejects(5) [OF pos diff rf this] ex show False by simp
  qed
  obtain ta where ta: "Convert r sa = Inr ta"
  proof (cases "Convert r sa")
    case (Inl err)
    from Execute_rejects(6) [OF pos diff rf rt this] ex show ?thesis by simp
  next
    case (Inr y)
    then show ?thesis by (rule that)
  qed
  note unfolded = Execute_validated [OF pos diff rf rt ta]
  obtain s1 where s1: "Debit src sa = Inr s1"
    using ex unfolded by (cases "Debit src sa") auto
  obtain t1 where t1: "Credit tgt ta = Inr t1"
    using ex unfolded s1 by (cases "Credit tgt ta") auto
  obtain c1 where c1: "Credit (getCashbookForCurrency usd eur (currency sa)) sa = Inr c1"
    using ex unfolded s1 t1
    by (cases "Credit (getCashbookForCurrency usd eur (currency sa)) sa") auto
  obtain u1 e1 where ue1: "setCashbookForCurrency usd eur (currency sa) c1 = (u1, e1)"
    by (cases "setCashbookForCurrency usd eur (currency sa) c1") auto
  obtain c2 where c2: "Debit (getCashbookForCurrency u1 e1 (currency ta)) ta = Inr c2"
    using ex unfolded s1 t1 c1 ue1
    by (cases "Debit (getCashbookForCurrency u1 e1 (currency ta)) ta") auto
  obtain u2 e2 where ue2: "setCashbookForCurrency u1 e1 (currency ta) c2 = (u2, e2)"
    by (cases "setCashbookForCurrency u1 e1 (currency ta) c2") auto
  have ids: "acc_id s1 = acc_id src" "acc_id t1 = acc_id tgt"
    using Debit_Inr [OF s1] Credit_Inr [OF t1] by simp_all
  have fin: "NewExchangeDetails newID newTxID (acc_id src) (acc_id tgt) sa ta now = Inr details
      \<and> src' = s1 \<and> tgt' = t1 \<and> usd' = u2 \<and> eur' = e2"
    using ex unfolded s1 t1 c1 ue1 c2 ue2 ids
    by (cases "NewExchangeDetails newID newTxID (acc_id src) (acc_id tgt) sa ta now") auto
  then have ne: "currency sa \<noteq> currency ta"
    by (auto simp: NewExchangeDetails_def split: if_splits)
  have tav: "IsValid (currency ta)" using Convert_Inr [OF ta] by simp
  have cash: "if currency sa = CurrencyUSD
          then Credit usd sa = Inr usd' \<and> Debit eur ta = Inr eur'
          else Credit eur sa = Inr eur' \<and> Debit usd ta = Inr usd'"
  proof (cases "currency sa = CurrencyUSD")
    case True
    with ne tav have "currency ta = CurrencyEUR" "currency ta \<noteq> CurrencyUSD"
      by (auto simp: IsValid_def)
    with True c1 ue1 c2 ue2 fin show ?thesis
      by (auto simp: getCashbookForCurrency_def setCashbookForCurrency_def)
  next
    case False
    with valid ne tav have "currency ta = CurrencyUSD"
      by (auto simp: IsValid_def)
    with False c1 ue1 c2 ue2 fin show ?thesis
      by (auto simp: getCashbookForCurrency_def setCashbookForCurrency_def)
  qed
  show ?thesis using ta s1 t1 cash fin by auto
qed


text \<open>
  Claim C5. \<open>ExchangeService_Execute\<close> rejects a negative source amount with
  \<open>NegativeExchange\<close>, a zero one with the error "exchange amount cannot be zero", source
  and target accounts of one currency with \<open>SameCurrencyExchange\<close>, and a rate whose
  \<open>from\<close> is not the currency of the source amount or whose \<open>to\<close> is not the currency
  of the target account with \<open>CurrencyMismatch\<close>, each time leaving the accounts as they
  were. When it succeeds, the source account has been debited the source amount, the target
  account credited the converted amount, the cashbook of the source currency credited the
  source amount and the cashbook of the target currency debited the converted amount. The
  four steps run in that order: when one of them fails, the steps before it have changed
  their accounts and the steps after it have not.
\<close>

theorem ExchangeService_Execute_contract:
  "(amount sa < 0 \<longrightarrow>
      ExchangeService_Execute newID newTxID src tgt usd eur sa r now
        = (Inl (NegativeExchange sa), src, tgt, usd, eur)) \<and>
   (amount sa = 0 \<longrightarrow>
      ExchangeService_Execute newID newTxID src tgt usd eur sa r now
        = (Inl (Errorf ''exchange amount cannot be zero''), src, tgt, usd, eur)) \<and>
   (0 < amount sa \<and> currency (acc_balance src) = currency (acc_balance tgt) \<longrightarrow>
      ExchangeService_Execute newID newTxID src tgt usd eur sa r now
        = (Inl (SameCurrencyExchange (currency (acc_balance src))), src, tgt, usd, eur)) \<and>
   (0 < amount sa \<and> currency (acc_balance src) \<noteq> currency (acc_balance tgt) \<and>
    rate_from r \<noteq> currency sa \<longrightarrow>
      ExchangeService_Execute newID newTxID src tgt usd eur sa r now
        = (Inl (CurrencyMismatch (rate_from r) (currency sa)), src, tgt, usd, eur)) \<and>
   (0 < amount sa \<and> currency (acc_balance src) \<noteq> currency (acc_balance tgt) \<and>
    rate_from r = currency sa \<and> rate_to r \<noteq> currency (acc_balance tgt) \<longrightarrow>
      ExchangeService_Execute newID newTxID src tgt usd eur sa r now
        = (Inl (CurrencyMismatch (rate_to r) (currency (acc_balance tgt))), src, tgt, usd, eur)) \<and>
   (IsValid (currency sa) \<and>
    ExchangeService_Execute newID newTxID src tgt usd eur sa r now
        = (Inr details, src', tgt', usd', eur') \<longrightarrow>
      (\<exists>ta. Convert r sa = Inr ta \<and>
         Debit src sa = Inr src' \<and>
         Credit tgt ta = Inr tgt' \<and>
         (if currency sa = CurrencyUSD
          then Credit usd sa = Inr usd' \<and> Debit eur ta = Inr eur'
          else Credit eur sa = Inr eur' \<and> Debit usd ta = Inr usd') \<and>
         details = \<lparr>ed_id = newID,
                     ed_transaction = \<lparr>tx_id = newTxID, tx_transactionType = TransactionTypeExchange,
                                        tx_account = acc_id src, tx_time = now\<rparr>,
                     ed_sourceAccount = acc_id src, ed_targetAccount = acc_id tgt,
                     ed_sourceAmount = sa, ed_targetAmount = ta, ed_time = now\<rparr>)) \<and>
   (0 < amount sa \<and> currency (acc_balance src) \<noteq> currency (acc_balance tgt) \<and>
    rate_from r = currency sa \<and> rate_to r = currency (acc_balance tgt) \<and>
    Convert r sa = Inr ta \<longrightarrow>
      (Debit src sa = Inl err \<longrightarrow>
         ExchangeService_Execute newID newTxID src tgt usd eur sa r now
           = (Inl err, src, tgt, usd, eur)) \<and>
      (Debit src sa = Inr src1 \<and> Credit tgt ta = Inr tgt1 \<and>
       Credit (getCashbookForCurrency usd eur (currency sa)) sa = Inl err \<longrightarrow>
         ExchangeService_Execute newID newTxID src tgt usd eur sa r now
           = (Inl err, src1, tgt1, usd, eur)) \<and>
      (Debit src sa = Inr src1 \<and> Credit tgt ta = Inr tgt1 \<and>
       Credit (getCashbookForCurrency usd eur (currency sa)) sa = Inr cb1 \<and>
       setCashbookForCurrency usd eur (currency sa) cb1 = (usd1, eur1) \<and>
       Debit (getCashbookForCurrency usd1 eur1 (currency ta)) ta = Inl err \<longrightarrow>
         ExchangeService_Execute newID newTxID src tgt usd eur sa r now
           = (Inl err, src1, tgt1, usd1, eur1)))"
proof -
  have success: "IsValid (currency sa) \<and>
    ExchangeService_Execute newID newTxID src tgt usd eur sa r now
        = (Inr details, src', tgt', usd', eur') \<longrightarrow>
      (\<exists>ta. Convert r sa = Inr ta \<and>
         Debit src sa = Inr src' \<and>
         Credit tgt ta = Inr tgt' \<and>
         (if currency sa = CurrencyUSD
          then Credit usd sa = Inr usd' \<and> Debit eur ta = Inr eur'
          else Credit eur sa = Inr eur' \<and> Debit usd ta = Inr usd') \<and>
         details = \<lparr>ed_id = newID,
                     ed_transaction = \<lparr>tx_id = newTxID, tx_transactionType = TransactionTypeExchange,
                                        tx_account = acc_id src, tx_time = now\<rparr>,
                     ed_sourceAccount = acc_id src, ed_targetAccount = acc_id tgt,
                     ed_sourceAmount = sa, ed_targetAmount = ta, ed_time = now\<rparr>)"
  proof
    assume a: "IsValid (currency sa) \<and>
      ExchangeService_Execute newID newTxID src tgt usd eur sa r now
        = (Inr details, src', tgt', usd', eur')"
    from Execute_success [OF conjunct1 [OF a] conjunct2 [OF a]]
    obtain ta where ta: "Convert r sa = Inr ta" "Debit src sa = Inr src'"
         "Credit tgt ta = Inr tgt'"
         "if currency sa = CurrencyUSD
          then Credit usd sa = Inr usd' \<and> Debit eur ta = Inr eur'
          else Credit eur sa = Inr eur' \<and> Debit usd ta = Inr usd'"
         "NewExchangeDetails newID newTxID (acc_id src) (acc_id tgt) sa ta now = Inr details"
      by blast
    from ta(5) have "details = \<lparr>ed_id = newID,
                     ed_transaction = \<lparr>tx_id = newTxID, tx_transactionType = TransactionTypeExchange,
                                        tx_account = acc_id src, tx_time = now\<rparr>,
                     ed_sourceAccount = acc_id src, ed_targetAccount = acc_id tgt,
                     ed_sourceAmount = sa, ed_targetAmount = ta, ed_time = now\<rparr>"
      by (auto simp: NewExchangeDetails_def NewTransaction_def split: if_splits)
    with ta(1-4) show "\<exists>ta. Convert r sa = Inr ta \<and>
         Debit src sa = Inr src' \<and>
         Credit tgt ta = Inr tgt' \<and>
         (if currency sa = CurrencyUSD
          then Credit usd sa = Inr usd' \<and> Debit eur ta = Inr eur'
          else Credit eur sa = Inr eur' \<and> Debit usd ta = Inr usd') \<and>
         details = \<lparr>ed_id = newID,
                     ed_transaction = \<lparr>tx_id = newTxID, tx_transactionType = TransactionTypeExchange,
                                        tx_account = acc_id src, tx_time = now\<rparr>,
                     ed_sourceAccount = acc_id src, ed_targetAccount = acc_id tgt,
                     ed_sourceAmount = sa, ed_targetAmount = ta, ed_time = now\<rparr>"
      by blast
  qed
  have order: "0 < amount sa \<and> currency (acc_balance src) \<noteq> currency (acc_balance tgt) \<and>
    rate_from r = currency sa \<and> rate_to r = currency (acc_balance tgt) \<and>
    Convert r sa = Inr ta \<longrightarrow>
      (Debit src sa = Inl err \<longrightarrow>
         ExchangeService_Execute newID newTxID src tgt usd eur sa r now
           = (Inl err, src, tgt, usd, eur)) \<and>
      (Debit src sa = Inr src1 \<and> Credit tgt ta = Inr tgt1 \<and>
       Credit (getCashbookForCurrency usd eur (currency sa)) sa = Inl err \<longrightarrow>
         ExchangeService_Execute newID newTxID src tgt usd eur sa r now
           = (Inl err, src1, tgt1, usd, eur)) \<and>
      (Debit src sa = Inr src1 \<and> Credit tgt ta = Inr tgt1 \<and>
       Credit (getCashbookForCurrency usd eur (currency sa)) sa = Inr cb1 \<and>
       setCashbookForCurrency usd eur (currency sa) cb1 = (usd1, eur1) \<and>
       Debit (getCashbookForCurrency usd1 eur1 (currency ta)) ta = Inl err \<longrightarrow>
         ExchangeService_Execute newID newTxID src tgt usd eur sa r now
           = (Inl err, src1, tgt1, usd1, eur1))"
  proof
    assume v: "0 < amount sa \<and> currency (acc_balance src) \<noteq> currency (acc_balance tgt) \<and>
      rate_from r = currency sa \<and> rate_to r = currency (acc_balance tgt) \<and>
      Convert r sa = Inr ta"
    then have unfolded: "ExchangeService_Execute newID newTxID src tgt usd eur sa r now =
      (case Debit src sa of
        Inl err \<Rightarrow> (Inl err, src, tgt, usd, eur)
      | Inr source' \<Rightarrow>
      (case Credit tgt ta of
        Inl err \<Rightarrow> (Inl err, source', tgt, usd, eur)
      | Inr target' \<Rightarrow>
      (case Credit (getCashbookForCurrency usd eur (currency sa)) sa of
        Inl err \<Rightarrow> (Inl err, source', target', usd, eur)
      | Inr sourceCashbook' \<Rightarrow>
      (case setCashbookForCurrency usd eur (currency sa) sourceCashbook' of
        (usd1, eur1) \<Rightarrow>
      (case Debit (getCashbookForCurrency usd1 eur1 (currency ta)) ta of
        Inl err \<Rightarrow> (Inl err, source', target', usd1, eur1)
      | Inr targetCashbook' \<Rightarrow>
      (case setCashbookForCurrency usd1 eur1 (currency ta) targetCashbook' of
        (usd2, eur2) \<Rightarrow>
      (case NewExchangeDetails newID newTxID (acc_id source') (acc_id target') sa ta now of
        Inl err \<Rightarrow> (Inl err, source', target', usd2, eur2)
      | Inr exchange \<Rightarrow> (Inr exchange, source', target', usd2, eur2))))))))"
      by (intro Execute_validated) simp_all
    show "(Debit src sa = Inl err \<longrightarrow>
         ExchangeService_Execute newID newTxID src tgt usd eur sa r now
           = (Inl err, src, tgt, usd, eur)) \<and>
      (Debit src sa = Inr src1 \<and> Credit tgt ta = Inr tgt1 \<and>
       Credit (getCashbookForCurrency usd eur (currency sa)) sa = Inl err \<longrightarrow>
         ExchangeService_Execute newID newTxID src tgt usd eur sa r now
           = (Inl err, src1, tgt1, usd, eur)) \<and>
      (Debit src sa = Inr src1 \<and> Credit tgt ta = Inr tgt1 \<and>
       Credit (getCashbookForCurrency usd eur (currency sa)) sa = Inr cb1 \<and>
       setCashbookForCurrency usd eur (currency sa) cb1 = (usd1, eur1) \<and>
       Debit (getCashbookForCurrency usd1 eur1 (currency ta)) ta = Inl err \<longrightarrow>
         ExchangeService_Execute newID newTxID src tgt usd eur sa r now
           = (Inl err, src1, tgt1, usd1, eur1))"
      by (simp add: unfolded)
  qed
  have r1: "amount sa < 0 \<longrightarrow>
      ExchangeService_Execute newID newTxID src tgt usd eur sa r now
        = (Inl (NegativeExchange sa), src, tgt, usd, eur)"
    by (simp add: Execute_rejects)
  have r2: "amount sa = 0 \<longrightarrow>
      ExchangeService_Execute newID newTxID src tgt usd eur sa r now
        = (Inl (Errorf ''exchange amount cannot be zero''), src, tgt, usd, eur)"
    by (simp add: Execute_rejects)
  have r3: "0 < amount sa \<and> currency (acc_balance src) = currency (acc_balance tgt) \<longrightarrow>
      ExchangeService_Execute newID newTxID src tgt usd eur sa r now
        = (Inl (SameCurrencyExchange (currency (acc_balance src))), src, tgt, usd, eur)"
    by (simp add: Execute_rejects)
  have r4: "0 < amount sa \<and> currency (acc_balance src) \<noteq> currency (acc_balance tgt) \<and>
    rate_from r \<noteq> currency sa \<longrightarrow>
      ExchangeService_Execute newID newTxID src tgt usd eur sa r now
        = (Inl (CurrencyMismatch (rate_from r) (currency sa)), src, tgt, usd, eur)"
    by (simp add: Execute_rejects)
  have r5: "0 < amount sa \<and> currency (acc_balance src) \<noteq> currency (acc_balance tgt) \<and>
    rate_from r = currency sa \<and> rate_to r \<noteq> currency (acc_balance tgt) \<longrightarrow>
      ExchangeService_Execute newID newTxID src tgt usd eur sa r now
        = (Inl (CurrencyMismatch (rate_to r) (currency (acc_balance tgt))), src, tgt, usd, eur)"
    by (simp add: Execute_rejects)
  show ?thesis
    by (intro conjI r1 r2 r3 r4 r5 success order)
qed


theorem ExchangeService_Execute_contract_witness:
  "ExchangeService_Execute 7 8
     \<lparr>acc_id = 1, acc_userID = 100, acc_balance = \<lparr>amount = 1000, currency = ''USD''\<rparr>\<rparr>
     \<lparr>acc_id = 2, acc_userID = 100, acc_balance = \<lparr>amount = 500, currency = ''EUR''\<rparr>\<rparr>
     \<lparr>acc_id = 16, acc_userID = 1, acc_balance = \<lparr>amount = 0, currency = ''USD''\<rparr>\<rparr>
     \<lparr>acc_id = 17, acc_userID = 1, acc_balance = \<lparr>amount = 0, currency = ''EUR''\<rparr>\<rparr>
     \<lparr>amount = 100, currency = ''USD''\<rparr>
     \<lparr>rate_from = ''USD'', rate_to = ''EUR'', rate = 92 / 100\<rparr> 0
   = (Inr \<lparr>ed_id = 7,
            ed_transaction = \<lparr>tx_id = 8, tx_transactionType = TransactionTypeExchange,
                               tx_account = 1, tx_time = 0\<rparr>,
            ed_sourceAccount = 1, ed_targetAccount = 2,
            ed_sourceAmount = \<lparr>amount = 100, currency = ''USD''\<rparr>,
            ed_targetAmount = \<lparr>amount = 92, currency = ''EUR''\<rparr>, ed_time = 0\<rparr>,
      \<lparr>acc_id = 1, acc_userID = 100, acc_balance = \<lparr>amount = 900, currency = ''USD''\<rparr>\<rparr>,
      \<lparr>acc_id = 2, acc_userID = 100, acc_balance = \<lparr>amount = 592, currency = ''EUR''\<rparr>\<rparr>,
      \<lparr>acc_id = 16, acc_userID = 1, acc_balance = \<lparr>amount = 100, currency = ''USD''\<rparr>\<rparr>,
      \<lparr>acc_id = 17, acc_userID = 1, acc_balance = \<lparr>amount = - 92, currency = ''EUR''\<rparr>\<rparr>) \<and>
   Convert \<lparr>rate_from = ''USD'', rate_to = ''EUR'', rate = 92 / 100\<rparr>
     \<lparr>amount = 100, currency = ''USD''\<rparr> = Inr \<lparr>amount = 92, currency = ''EUR''\<rparr> \<and>
   Debit \<lparr>acc_id = 17, acc_userID = 1, acc_balance = \<lparr>amount = 0, currency = ''EUR''\<rparr>\<rparr>
     \<lparr>amount = 92, currency = ''EUR''\<rparr>
     = Inr \<lparr>acc_id = 17, acc_userID = 1, acc_balance = \<lparr>amount = - 92, currency = ''EUR''\<rparr>\<rparr> \<and>
   ExchangeService_Execute 7 8
     \<lparr>acc_id = 1, acc_userID = 100, acc_balance = \<lparr>amount = 1000, currency = ''USD''\<rparr>\<rparr>
     \<lparr>acc_id = 2, acc_userID = 100, acc_balance = \<lparr>amount = 500, currency = ''EUR''\<rparr>\<rparr>
     \<lparr>acc_id = 16, acc_userID = 1, acc_balance = \<lparr>amount = 0, currency = ''USD''\<rparr>\<rparr>
     \<lparr>acc_id = 17, acc_userID = 1, acc_balance = \<lparr>amount = 0, currency = ''EUR''\<rparr>\<rparr>
     \<lparr>amount = 2000, currency = ''USD''\<rparr>
     \<lparr>rate_from = ''USD'', rate_to = ''EUR'', rate = 92 / 100\<rparr> 0
   = (Inl (InsufficientFunds 1 2000 1000),
      \<lparr>acc_id = 1, acc_userID = 100, acc_balance = \<lparr>amount = 1000, currency = ''USD''\<rparr>\<rparr>,
      \<lparr>acc_id = 2, acc_userID = 100, acc_balance = \<lparr>amount = 500, currency = ''EUR''\<rparr>\<rparr>,
      \<lparr>acc_id = 16, acc_userID = 1, acc_balance = \<lparr>amount = 0, currency = ''USD''\<rparr>\<rparr>,
      \<lparr>acc_id = 17, acc_userID = 1, acc_balance = \<lparr>amount = 0, currency = ''EUR''\<rparr>\<rparr>)"
proof -
  have ex: "ExchangeService_Execute 7 8
     \<lparr>acc_id = 1, acc_userID = 100, acc_balance = \<lparr>amount = 1000, currency = ''USD''\<rparr>\<rparr>
     \<lparr>acc_id = 2, acc_userID = 100, acc_balance = \<lparr>amount = 500, currency = ''EUR''\<rparr>\<rparr>
     \<lparr>acc_id = 16, acc_userID = 1, acc_balance = \<lparr>amount = 0, currency = ''USD''\<rparr>\<rparr>
     \<lparr>acc_id = 17, acc_userID = 1, acc_balance = \<lparr>amount = 0, currency = ''EUR''\<rparr>\<rparr>
     \<lparr>amount = 100, currency = ''USD''\<rparr>
     \<lparr>rate_from = ''USD'', rate_to = ''EUR'', rate = 92 / 100\<rparr> 0
   = (Inr \<lparr>ed_id = 7,
            ed_transaction = \<lparr>tx_id = 8, tx_transactionType = TransactionTypeExchange,
                               tx_account = 1, tx_time = 0\<rparr>,
            ed_sourceAccount = 1, ed_targetAccount = 2,
            ed_sourceAmount = \<lparr>amount = 100, currency = ''USD''\<rparr>,
            ed_targetAmount = \<lparr>amount = 92, currency = ''EUR''\<rparr>, ed_time = 0\<rparr>,
      \<lparr>acc_id = 1, acc_userID = 100, acc_balance = \<lparr>amount = 900, currency = ''USD''\<rparr>\<rparr>,
      \<lparr>acc_id = 2, acc_userID = 100, acc_balance = \<lparr>amount = 592, currency = ''EUR''\<rparr>\<rparr>,
      \<lparr>acc_id = 16, acc_userID = 1, acc_balance = \<lparr>amount = 100, currency = ''USD''\<rparr>\<rparr>,
      \<lparr>acc_id = 17, acc_userID = 1, acc_balance = \<lparr>amount = - 92, currency = ''EUR''\<rparr>\<rparr>)"
    by (simp add: ExchangeService_Execute_def CalculateExchangeAmount_def Convert_def
        NewExchangeDetails_def NewTransaction_def getCashbookForCurrency_def
        setCashbookForCurrency_def account_defs money_defs decimal_Round_def)
  have conv: "Convert \<lparr>rate_from = ''USD'', rate_to = ''EUR'', rate = 92 / 100\<rparr>
     \<lparr>amount = 2000, currency = ''USD''\<rparr> = Inr \<lparr>amount = 1840, currency = ''EUR''\<rparr>"
    by (simp add: Convert_def money_defs decimal_Round_def)
  have deb: "Debit \<lparr>acc_id = 1, acc_userID = 100, acc_balance = \<lparr>amount = 1000, currency = ''USD''\<rparr>\<rparr>
     \<lparr>amount = 2000, currency = ''USD''\<rparr> = Inl (InsufficientFunds 1 2000 1000)"
    by (simp add: account_defs)
  show ?thesis
    using ex conv deb
      ExchangeService_Execute_contract [where sa = "\<lparr>amount = 100, currency = ''USD''\<rparr>"
        and newID = 7 and newTxID = 8 and now = 0
        and src = "\<lparr>acc_id = 1, acc_userID = 100, acc_balance = \<lparr>amount = 1000, currency = ''USD''\<rparr>\<rparr>"
        and tgt = "\<lparr>acc_id = 2, acc_userID = 100, acc_balance = \<lparr>amount = 500, currency = ''EUR''\<rparr>\<rparr>"
        and usd = "\<lparr>acc_id = 16, acc_userID = 1, acc_balance = \<lparr>amount = 0, currency = ''USD''\<rparr>\<rparr>"
        and eur = "\<lparr>acc_id = 17, acc_userID = 1, acc_balance = \<lparr>amount = 0, currency = ''EUR''\<rparr>\<rparr>"
        and r = "\<lparr>rate_from = ''USD'', rate_to = ''EUR'', rate = 92 / 100\<rparr>"
        and src' = "\<lparr>acc_id = 1, acc_userID = 100, acc_balance = \<lparr>amount = 900, currency = ''USD''\<rparr>\<rparr>"
        and tgt' = "\<lparr>acc_id = 2, acc_userID = 100, acc_balance = \<lparr>amount = 592, currency = ''EUR''\<rparr>\<rparr>"
        and usd' = "\<lparr>acc_id = 16, acc_userID = 1, acc_balance = \<lparr>amount = 100, currency = ''USD''\<rparr>\<rparr>"
        and eur' = "\<lparr>acc_id = 17, acc_userID = 1, acc_balance = \<lparr>amount = - 92, currency = ''EUR''\<rparr>\<rparr>"
        and details = "\<lparr>ed_id = 7,
            ed_transaction = \<lparr>tx_id = 8, tx_transactionType = TransactionTypeExchange,
                               tx_account = 1, tx_time = 0\<rparr>,
            ed_sourceAccount = 1, ed_targetAccount = 2,
            ed_sourceAmount = \<lparr>amount = 100, currency = ''USD''\<rparr>,
            ed_targetAmount = \<lparr>amount = 92, currency = ''EUR''\<rparr>, ed_time = 0\<rparr>"]
      ExchangeService_Execute_contract [where sa = "\<lparr>amount = 2000, currency = ''USD''\<rparr>"
        and newID = 7 and newTxID = 8 and now = 0
        and src = "\<lparr>acc_id = 1, acc_userID = 100, acc_balance = \<lparr>amount = 1000, currency = ''USD''\<rparr>\<rparr>"
        and tgt = "\<lparr>acc_id = 2, acc_userID = 100, acc_balance = \<lparr>amount = 500, currency = ''EUR''\<rparr>\<rparr>"
        and usd = "\<lparr>acc_id = 16, acc_userID = 1, acc_balance = \<lparr>amount = 0, currency = ''USD''\<rparr>\<rparr>"
        and eur = "\<lparr>acc_id = 17, acc_userID = 1, acc_balance = \<lparr>amount = 0, currency = ''EUR''\<rparr>\<rparr>"
        and r = "\<lparr>rate_from = ''USD'', rate_to = ''EUR'', rate = 92 / 100\<rparr>"
        and ta = "\<lparr>amount = 1840, currency = ''EUR''\<rparr>"
        and err = "InsufficientFunds 1 2000 1000"]
    by (simp add: money_defs)
qed


section \<open>Reconciliation\<close>

lemma IsValid_currency_of_enum [simp]: "IsValid (currency_of_enum c)"
  by (cases c) (simp_all add: currency_of_enum_def IsValid_def)

lemma currency_of_enum_label:
  "currency_of_enum c = (case c of USD \<Rightarrow> ''USD'' | EUR \<Rightarrow> ''EUR'')"
  by (cases c) (simp_all add: currency_of_enum_def CurrencyUSD_def CurrencyEUR_def)

lemma scanTotals_valid:
  "\<forall>(c, a) \<in> set rows. IsValid c \<Longrightarrow>
     scanTotals rows = Inr (map (\<lambda>(c, a). (c, \<lparr>amount = a, currency = c\<rparr>)) rows)"
  by (induction rows) (auto simp: NewMoney_def)

lemma GetTotalBalanceByCurrency_eq:
  "GetTotalBalanceByCurrency d
     = Inr (map (\<lambda>(c, a). (c, \<lparr>amount = a, currency = c\<rparr>)) (totals_rows d))"
  unfolding GetTotalBalanceByCurrency_def
  by (rule scanTotals_valid) (auto simp: totals_rows_def)

lemma reconcile_totals_eq:
  "reconcile_totals ts report =
     report\<lparr>LedgerBalances := LedgerBalances report @
               map (\<lambda>(c, t). \<lparr>status_Currency = c, TotalSum = amount t, IsBalanced = IsZero t\<rparr>) ts,
            IsConsistent := IsConsistent report \<and> (\<forall>(c, t) \<in> set ts. IsZero t)\<rparr>"
  by (induction ts arbitrary: report) (auto simp: Let_def)

lemma reconcile_mismatches_eq:
  "reconcile_mismatches ms report =
     report\<lparr>AccountMismatches := AccountMismatches report @
               map (\<lambda>m. \<lparr>m_AccountID = abm_AccountID m, m_Currency = abm_Currency m,
                         m_AccountBalance = abm_AccountBalance m,
                         m_LedgerBalance = abm_LedgerBalance m,
                         Difference = abm_AccountBalance m - abm_LedgerBalance m\<rparr>) ms,
            IsConsistent := IsConsistent report \<and> ms = []\<rparr>"
  by (induction ms arbitrary: report) (auto simp: Let_def)

lemma Reconcile_eq:
  "Reconcile rangeOrder now d =
     Inr \<lparr>Timestamp = now,
          IsConsistent =
            ((\<forall>(c, t) \<in> set (rangeOrder (map (\<lambda>(c, a). (c, \<lparr>amount = a, currency = c\<rparr>)) (totals_rows d))). IsZero t)
             \<and> GetAccountBalanceMismatches d = []),
          LedgerBalances =
            map (\<lambda>(c, t). \<lparr>status_Currency = c, TotalSum = amount t, IsBalanced = IsZero t\<rparr>)
              (rangeOrder (map (\<lambda>(c, a). (c, \<lparr>amount = a, currency = c\<rparr>)) (totals_rows d))),
          AccountMismatches =
            map (\<lambda>m. \<lparr>m_AccountID = abm_AccountID m, m_Currency = abm_Currency m,
                      m_AccountBalance = abm_AccountBalance m,
                      m_LedgerBalance = abm_LedgerBalance m,
                      Difference = abm_AccountBalance m - abm_LedgerBalance m\<rparr>)
              (GetAccountBalanceMismatches d),
          TotalAccountsChecked = Count d\<rparr>"
  by (simp add: Reconcile_def GetTotalBalanceByCurrency_eq reconcile_totals_eq
      reconcile_mismatches_eq Let_def)

lemma totals_zero_iff:
  "(\<forall>(c, a) \<in> set (totals_rows d). a = 0) \<longleftrightarrow> (\<forall>c. ledger_sum_of_currency d c = 0)"
proof
  assume a: "\<forall>(c, a) \<in> set (totals_rows d). a = 0"
  show "\<forall>c. ledger_sum_of_currency d c = 0"
  proof
    fix c
    show "ledger_sum_of_currency d c = 0"
    proof (cases "c \<in> set (map l_currency (ledger d))")
      case True
      then have "(currency_of_enum c, ledger_sum_of_currency d c) \<in> set (totals_rows d)"
        by (auto simp: totals_rows_def)
      with a show ?thesis by auto
    next
      case False
      then have "filter (\<lambda>r. l_currency r = c) (ledger d) = []"
        by (auto simp: filter_empty_conv)
      then show ?thesis by (simp add: ledger_sum_of_currency_def)
    qed
  qed
next
  assume "\<forall>c. ledger_sum_of_currency d c = 0"
  then show "\<forall>(c, a) \<in> set (totals_rows d). a = 0"
    by (auto simp: totals_rows_def)
qed

lemma mismatches_empty_iff:
  "GetAccountBalanceMismatches d = [] \<longleftrightarrow>
     (\<forall>a \<in> set (accounts d). a_balance a = ledger_sum_of_account d (a_id a))"
  by (auto simp: GetAccountBalanceMismatches_def filter_empty_conv)

text \<open>
  Claim C9. Whatever the state of the accounts and of the ledger, and in whatever order the
  per-currency totals are visited, \<open>Reconcile\<close> returns a report. Its \<open>IsConsistent\<close>
  flag is true exactly when every per-currency status is balanced and the list of
  mismatches is empty, that is, when every per-currency total of the ledger is zero and
  every account's balance equals the sum of its ledger records. There is one status per
  currency of the ledger, carrying the total, with \<open>IsBalanced\<close> exactly when the total is
  zero; one mismatch per account whose balance differs from its ledger sum, carrying the
  account, its currency, both balances and their difference (account minus ledger); and
  \<open>TotalAccountsChecked\<close> is the number of accounts. The totals and the ledger sums are
  written out as sums over the rows of the ledger.
\<close>

theorem Reconcile_report:
  assumes "\<And>xs. set (rangeOrder xs) = set xs \<and> length (rangeOrder xs) = length xs"
  shows "\<exists>report. Reconcile rangeOrder now d = Inr report \<and>
     Timestamp report = now \<and>
     (IsConsistent report \<longleftrightarrow>
        (\<forall>s \<in> set (LedgerBalances report). IsBalanced s) \<and> AccountMismatches report = []) \<and>
     (IsConsistent report \<longleftrightarrow>
        (\<forall>c. sum_list (map l_amount (filter (\<lambda>r. l_currency r = c) (ledger d))) = 0) \<and>
        (\<forall>a \<in> set (accounts d).
           a_balance a
             = sum_list (map l_amount (filter (\<lambda>r. l_account r = a_id a) (ledger d))))) \<and>
     (\<forall>s \<in> set (LedgerBalances report). IsBalanced s \<longleftrightarrow> TotalSum s = 0) \<and>
     set (map (\<lambda>s. (status_Currency s, TotalSum s)) (LedgerBalances report))
       = set (map (\<lambda>c. (case c of USD \<Rightarrow> ''USD'' | EUR \<Rightarrow> ''EUR'',
                         sum_list (map l_amount (filter (\<lambda>r. l_currency r = c) (ledger d)))))
                (remdups (map l_currency (ledger d)))) \<and>
     length (LedgerBalances report) = length (remdups (map l_currency (ledger d))) \<and>
     AccountMismatches report
       = map (\<lambda>a. \<lparr>m_AccountID = a_id a,
                   m_Currency = (case a_currency a of USD \<Rightarrow> ''USD'' | EUR \<Rightarrow> ''EUR''),
                   m_AccountBalance = a_balance a,
                   m_LedgerBalance
                     = sum_list (map l_amount (filter (\<lambda>r. l_account r = a_id a) (ledger d))),
                   Difference = a_balance a
                     - sum_list (map l_amount (filter (\<lambda>r. l_account r = a_id a) (ledger d)))\<rparr>)
           (filter (\<lambda>a. a_balance a
                      \<noteq> sum_list (map l_amount (filter (\<lambda>r. l_account r = a_id a) (ledger d))))
              (accounts d)) \<and>
     TotalAccountsChecked report = int (length (accounts d))"
proof -
  define ts where "ts = map (\<lambda>(c, a). (c, \<lparr>amount = a, currency = c\<rparr>)) (totals_rows d)"
  have s: "set (rangeOrder ts) = set ts" and l: "length (rangeOrder ts) = length ts"
    using assms by simp_all
  have zero: "(\<forall>(c, t) \<in> set (rangeOrder ts). IsZero t) \<longleftrightarrow> (\<forall>c. ledger_sum_of_currency d c = 0)"
    unfolding s totals_zero_iff [symmetric] by (auto simp: ts_def IsZero_def)
  have img: "set (map (\<lambda>s. (status_Currency s, TotalSum s))
        (map (\<lambda>(c, t). \<lparr>status_Currency = c, TotalSum = amount t, IsBalanced = IsZero t\<rparr>)
           (rangeOrder ts)))
     = set (totals_rows d)"
  proof -
    have "set (map (\<lambda>s. (status_Currency s, TotalSum s))
        (map (\<lambda>(c, t). \<lparr>status_Currency = c, TotalSum = amount t, IsBalanced = IsZero t\<rparr>)
           (rangeOrder ts))) = (\<lambda>(c, t). (c, amount t)) ` set (rangeOrder ts)"
      by (simp add: case_prod_unfold image_image)
    also have "\<dots> = (\<lambda>(c, t). (c, amount t)) ` set ts" by (simp only: s)
    also have "\<dots> = set (totals_rows d)" by (force simp: ts_def image_iff)
    finally show ?thesis .
  qed
  define report where "report =
     \<lparr>Timestamp = now,
      IsConsistent = ((\<forall>(c, t) \<in> set (rangeOrder ts). IsZero t) \<and> GetAccountBalanceMismatches d = []),
      LedgerBalances =
        map (\<lambda>(c, t). \<lparr>status_Currency = c, TotalSum = amount t, IsBalanced = IsZero t\<rparr>)
          (rangeOrder ts),
      AccountMismatches =
        map (\<lambda>m. \<lparr>m_AccountID = abm_AccountID m, m_Currency = abm_Currency m,
                  m_AccountBalance = abm_AccountBalance m,
                  m_LedgerBalance = abm_LedgerBalance m,
                  Difference = abm_AccountBalance m - abm_LedgerBalance m\<rparr>)
          (GetAccountBalanceMismatches d),
      TotalAccountsChecked = Count d\<rparr>"
  have r: "Reconcile rangeOrder now d = Inr report"
    unfolding report_def ts_def by (rule Reconcile_eq)
  have c1: "Timestamp report = now" by (simp add: report_def)
  have c2: "IsConsistent report \<longleftrightarrow>
        (\<forall>s \<in> set (LedgerBalances report). IsBalanced s) \<and> AccountMismatches report = []"
    by (auto simp: report_def)
  have c3: "IsConsistent report \<longleftrightarrow>
        (\<forall>c. sum_list (map l_amount (filter (\<lambda>r. l_currency r = c) (ledger d))) = 0) \<and>
        (\<forall>a \<in> set (accounts d).
           a_balance a
             = sum_list (map l_amount (filter (\<lambda>r. l_account r = a_id a) (ledger d))))"
    using zero
    by (simp add: report_def mismatches_empty_iff ledger_sum_of_currency_def
        ledger_sum_of_account_def)
  have c4: "\<forall>s \<in> set (LedgerBalances report). IsBalanced s \<longleftrightarrow> TotalSum s = 0"
    by (auto simp: report_def IsZero_def)
  have c5: "set (map (\<lambda>s. (status_Currency s, TotalSum s)) (LedgerBalances report))
       = set (map (\<lambda>c. (case c of USD \<Rightarrow> ''USD'' | EUR \<Rightarrow> ''EUR'',
                         sum_list (map l_amount (filter (\<lambda>r. l_currency r = c) (ledger d)))))
                (remdups (map l_currency (ledger d))))"
    using img
    by (simp add: report_def totals_rows_def ledger_sum_of_currency_def currency_of_enum_label)
  have c6: "length (LedgerBalances report) = length (remdups (map l_currency (ledger d)))"
    using l by (simp add: report_def ts_def totals_rows_def)
  have c7: "AccountMismatches report
       = map (\<lambda>a. \<lparr>m_AccountID = a_id a,
                   m_Currency = (case a_currency a of USD \<Rightarrow> ''USD'' | EUR \<Rightarrow> ''EUR''),
                   m_AccountBalance = a_balance a,
                   m_LedgerBalance
                     = sum_list (map l_amount (filter (\<lambda>r. l_account r = a_id a) (ledger d))),
                   Difference = a_balance a
                     - sum_list (map l_amount (filter (\<lambda>r. l_account r = a_id a) (ledger d)))\<rparr>)
           (filter (\<lambda>a. a_balance a
                      \<noteq> sum_list (map l_amount (filter (\<lambda>r. l_account r = a_id a) (ledger d))))
              (accounts d))"
    by (simp add: report_def GetAccountBalanceMismatches_def ledger_sum_of_account_def
        currency_of_enum_label o_def)
  have c8: "TotalAccountsChecked report = int (length (accounts d))"
    by (simp add: report_def Count_def)
  show ?thesis
    using r c1 c2 c3 c4 c5 c6 c7 c8 by blast
qed



theorem Reconcile_report_witness:
  "Reconcile rev 7 seeded =
     Inr \<lparr>Timestamp = 7, IsConsistent = True,
          LedgerBalances =
            [\<lparr>status_Currency = ''EUR'', TotalSum = 0, IsBalanced = True\<rparr>,
             \<lparr>status_Currency = ''USD'', TotalSum = 0, IsBalanced = True\<rparr>],
          AccountMismatches = [], TotalAccountsChecked = 6\<rparr> \<and>
   (\<exists>report. Reconcile rev 7 (seeded\<lparr>accounts :=
        [\<lparr>a_id = 16, a_user_id = 1, a_balance = - 2000, a_currency = USD\<rparr>,
         \<lparr>a_id = 1, a_user_id = 100, a_balance = 900, a_currency = USD\<rparr>]\<rparr>) = Inr report \<and>
      \<not> IsConsistent report \<and>
      AccountMismatches report =
        [\<lparr>m_AccountID = 1, m_Currency = ''USD'', m_AccountBalance = 900,
          m_LedgerBalance = 1000, Difference = - 100\<rparr>] \<and>
      TotalAccountsChecked report = 2) \<and>
   Reconcile rev 7 (seeded\<lparr>ledger := ledger seeded @
        [\<lparr>l_id = 1209, l_transaction = 1001, l_account = 1, l_amount = 5,
          l_currency = USD, l_timestamp = 2\<rparr>]\<rparr>) =
     Inr \<lparr>Timestamp = 7, IsConsistent = False,
          LedgerBalances =
            [\<lparr>status_Currency = ''USD'', TotalSum = 5, IsBalanced = False\<rparr>,
             \<lparr>status_Currency = ''EUR'', TotalSum = 0, IsBalanced = True\<rparr>],
          AccountMismatches =
            [\<lparr>m_AccountID = 1, m_Currency = ''USD'', m_AccountBalance = 1000,
              m_LedgerBalance = 1005, Difference = - 5\<rparr>],
          TotalAccountsChecked = 6\<rparr> \<and>
   sum_list (map l_amount (filter (\<lambda>r. l_currency r = USD)
       (ledger (seeded\<lparr>ledger := ledger seeded @
        [\<lparr>l_id = 1209, l_transaction = 1001, l_account = 1, l_amount = 5,
          l_currency = USD, l_timestamp = 2\<rparr>]\<rparr>)))) = 5"
proof -
  have p: "\<And>xs :: (Currency \<times> Money) list. set (rev xs) = set xs \<and> length (rev xs) = length xs"
    by simp
  have a: "Reconcile rev 7 seeded =
     Inr \<lparr>Timestamp = 7, IsConsistent = True,
          LedgerBalances =
            [\<lparr>status_Currency = ''EUR'', TotalSum = 0, IsBalanced = True\<rparr>,
             \<lparr>status_Currency = ''USD'', TotalSum = 0, IsBalanced = True\<rparr>],
          AccountMismatches = [], TotalAccountsChecked = 6\<rparr>"
    by (simp add: Reconcile_eq seeded_def totals_rows_def ledger_sum_of_currency_def
        GetAccountBalanceMismatches_def ledger_sum_of_account_def Count_def IsZero_def
        currency_of_enum_def CurrencyUSD_def CurrencyEUR_def)
  have b: "\<exists>report. Reconcile rev 7 (seeded\<lparr>accounts :=
        [\<lparr>a_id = 16, a_user_id = 1, a_balance = - 2000, a_currency = USD\<rparr>,
         \<lparr>a_id = 1, a_user_id = 100, a_balance = 900, a_currency = USD\<rparr>]\<rparr>) = Inr report \<and>
      \<not> IsConsistent report \<and>
      AccountMismatches report =
        [\<lparr>m_AccountID = 1, m_Currency = ''USD'', m_AccountBalance = 900,
          m_LedgerBalance = 1000, Difference = - 100\<rparr>] \<and>
      TotalAccountsChecked report = 2"
    using Reconcile_report [of rev 7 "seeded\<lparr>accounts :=
        [\<lparr>a_id = 16, a_user_id = 1, a_balance = - 2000, a_currency = USD\<rparr>,
         \<lparr>a_id = 1, a_user_id = 100, a_balance = 900, a_currency = USD\<rparr>]\<rparr>", OF p]
    by (auto simp: seeded_def ledger_sum_of_account_def currency_of_enum_def CurrencyUSD_def)
  have e: "Reconcile rev 7 (seeded\<lparr>ledger := ledger seeded @
        [\<lparr>l_id = 1209, l_transaction = 1001, l_account = 1, l_amount = 5,
          l_currency = USD, l_timestamp = 2\<rparr>]\<rparr>) =
     Inr \<lparr>Timestamp = 7, IsConsistent = False,
          LedgerBalances =
            [\<lparr>status_Currency = ''USD'', TotalSum = 5, IsBalanced = False\<rparr>,
             \<lparr>status_Currency = ''EUR'', TotalSum = 0, IsBalanced = True\<rparr>],
          AccountMismatches =
            [\<lparr>m_AccountID = 1, m_Currency = ''USD'', m_AccountBalance = 1000,
              m_LedgerBalance = 1005, Difference = - 5\<rparr>],
          TotalAccountsChecked = 6\<rparr>"
    by (simp add: Reconcile_eq seeded_def totals_rows_def ledger_sum_of_currency_def
        GetAccountBalanceMismatches_def ledger_sum_of_account_def Count_def IsZero_def
        currency_of_enum_def CurrencyUSD_def CurrencyEUR_def)
  have u: "sum_list (map l_amount (filter (\<lambda>r. l_currency r = USD)
       (ledger (seeded\<lparr>ledger := ledger seeded @
        [\<lparr>l_id = 1209, l_transaction = 1001, l_account = 1, l_amount = 5,
          l_currency = USD, l_timestamp = 2\<rparr>]\<rparr>)))) = 5"
    by (simp add: seeded_def)
  have c: "\<not> (\<forall>c. sum_list (map l_amount (filter (\<lambda>r. l_currency r = c)
       (ledger (seeded\<lparr>ledger := ledger seeded @
        [\<lparr>l_id = 1209, l_transaction = 1001, l_account = 1, l_amount = 5,
          l_currency = USD, l_timestamp = 2\<rparr>]\<rparr>)))) = 0)"
    using u by (intro notI) (drule spec [of _ USD], simp)
  have n: "\<exists>report. Reconcile rev 7 (seeded\<lparr>ledger := ledger seeded @
        [\<lparr>l_id = 1209, l_transaction = 1001, l_account = 1, l_amount = 5,
          l_currency = USD, l_timestamp = 2\<rparr>]\<rparr>) = Inr report \<and> \<not> IsConsistent report"
    using Reconcile_report [of rev 7 "seeded\<lparr>ledger := ledger seeded @
        [\<lparr>l_id = 1209, l_transaction = 1001, l_account = 1, l_amount = 5,
          l_currency = USD, l_timestamp = 2\<rparr>]\<rparr>", OF p] c
    by blast
  show ?thesis using a b e u n by blast
qed

section \<open>Steps of a unit of work\<close>

lemma enum_of_currency_of_enum [simp]: "enum_of_currency (currency_of_enum c) = Inr c"
  by (cases c) (simp_all add: enum_of_currency_def currency_of_enum_def CurrencyUSD_def CurrencyEUR_def)

lemma find_account_id: "find (\<lambda>r. a_id r = i) rows = Some row \<Longrightarrow> a_id row = i \<and> row \<in> set rows"
  by (auto simp: find_Some_iff)

lemma find_account_exists:
  "find (\<lambda>r. a_id r = i) (accounts d) = Some row \<Longrightarrow> account_exists d i"
  by (auto simp: account_exists_def dest: find_account_id)

lemma not_account_exists_find:
  "\<not> account_exists d i \<longleftrightarrow> find (\<lambda>r. a_id r = i) (accounts d) = None"
  by (auto simp: account_exists_def find_None_iff)

lemma GetForUpdate_found:
  "find (\<lambda>r. a_id r = i) (accounts (uow_db s)) = Some row \<Longrightarrow>
     GetForUpdate i s =
       (Inr \<lparr>acc_id = i, acc_userID = a_user_id row,
             acc_balance = \<lparr>amount = a_balance row, currency = currency_of_enum (a_currency row)\<rparr>\<rparr>,
        s\<lparr>uow_locked := uow_locked s @ [i]\<rparr>)"
  by (auto simp: GetForUpdate_def NewMoney_def NewAccount_def dest: find_account_id)

lemma GetForUpdate_missing:
  "find (\<lambda>r. a_id r = i) (accounts (uow_db s)) = None \<Longrightarrow>
     GetForUpdate i s = (Inl (AccountNotFound i), s)"
  by (simp add: GetForUpdate_def)

lemma numeric_zero [simp]: "numeric 19 2 0 = Inr 0"
  by (simp add: numeric_def decimal_Round_def)

lemma TransferService_Execute_negative:
  "(\<exists>m' f' t'. TransferService_Execute newID newTxID from to money now
       = (Inl (NegativeTransfer m'), f', t')) \<longleftrightarrow> amount money < 0"
  by (auto simp: TransferService_Execute_def NewTransferDetails_def account_defs money_defs
      split: sum.splits if_splits)

lemma TransferService_Execute_zero:
  assumes "amount money = 0"
    and "IsCashbook from \<or> 0 \<le> amount (acc_balance from)"
    and "currency money = currency (acc_balance from)"
    and "currency money = currency (acc_balance to)"
  shows "TransferService_Execute newID newTxID from to money now =
     (Inr \<lparr>td_id = newID,
           td_transaction = \<lparr>tx_id = newTxID, tx_transactionType = TransactionTypeTransfer,
                              tx_account = acc_id from, tx_time = now\<rparr>,
           td_recipient = acc_id to, td_money = money, td_time = now\<rparr>, from, to)"
  using assms
  by (auto simp: TransferService_Execute_def NewTransferDetails_def NewTransaction_def
      account_defs money_defs)

lemma Do_locked: "snd (snd (Do d fn)) = uow_locked (snd (fn \<lparr>uow_db = d, uow_tx = True, uow_locked = []\<rparr>))"
  by (simp add: Do_def split: prod.splits sum.splits)

lemma andThen_locked:
  assumes "\<And>s. uow_locked (snd (m s)) = uow_locked s"
    and "\<And>x s. uow_locked (snd (f x s)) = uow_locked s"
  shows "uow_locked (snd (andThen m f s)) = uow_locked s"
proof (cases "m s")
  case (Pair r s')
  with assms(1) [of s] have l: "uow_locked s' = uow_locked s" by simp
  show ?thesis
  proof (cases r)
    case (Inl err)
    with Pair l show ?thesis by (simp add: andThen_def)
  next
    case (Inr x)
    with Pair l assms(2) [of x s'] show ?thesis by (simp add: andThen_def)
  qed
qed

lemma lift_locked: "uow_locked (snd (lift r s)) = uow_locked s"
  by (simp add: lift_def)

lemma succeed_locked: "uow_locked (snd (succeed x s)) = uow_locked s"
  by (simp add: succeed_def)

lemma check_locked: "uow_locked (snd (check f s)) = uow_locked s"
  by (simp add: check_def split: option.splits)

lemma Save_locked: "uow_locked (snd (Save a s)) = uow_locked s"
  by (simp add: Save_def split: sum.splits)

lemma insertTransactionRow_locked: "uow_locked (snd (insertTransactionRow i ty a tm s)) = uow_locked s"
  by (simp add: insertTransactionRow_def)

lemma insertLedgerRecord_locked: "uow_locked (snd (insertLedgerRecord r s)) = uow_locked s"
  by (simp add: insertLedgerRecord_def split: sum.splits)

lemma transfers_insertDetails_locked: "uow_locked (snd (transfers_insertDetails t s)) = uow_locked s"
  by (simp add: transfers_insertDetails_def split: sum.splits)

lemma exchanges_insertDetails_locked: "uow_locked (snd (exchanges_insertDetails e s)) = uow_locked s"
  by (simp add: exchanges_insertDetails_def split: sum.splits)

lemma exchanges_insertLedgerEntries_locked:
  "uow_locked (snd (exchanges_insertLedgerEntries rs s)) = uow_locked s"
  by (induction rs arbitrary: s)
     (simp_all add: succeed_locked andThen_locked insertLedgerRecord_locked)

lemma Transfers_Insert_locked: "uow_locked (snd (Transfers_Insert r1 r2 t s)) = uow_locked s"
  by (simp add: Transfers_Insert_def transfers_insertTransaction_def transfers_insertLedgerEntry_def
      andThen_locked insertTransactionRow_locked transfers_insertDetails_locked lift_locked
      insertLedgerRecord_locked)

lemma Exchanges_Insert_locked: "uow_locked (snd (Exchanges_Insert r1 r2 r3 r4 e s)) = uow_locked s"
  by (simp add: Exchanges_Insert_def exchanges_insertTransaction_def
      andThen_locked insertTransactionRow_locked exchanges_insertDetails_locked lift_locked
      exchanges_insertLedgerEntries_locked)

lemma executeTransfer_locked:
  "uow_locked (snd (executeTransfer ids f t m now s)) = uow_locked s"
  by (simp add: executeTransfer_def split: prod.splits sum.splits)

lemma executeExchange_locked:
  "uow_locked (snd (executeExchange ids a b c d m r now s)) = uow_locked s"
  by (simp add: executeExchange_def split: prod.splits sum.splits)

lemmas locked_simps = andThen_locked lift_locked succeed_locked check_locked Save_locked
  Transfers_Insert_locked Exchanges_Insert_locked executeTransfer_locked executeExchange_locked

lemma GetForUpdate_locked:
  "uow_locked (snd (GetForUpdate i s)) =
     (if account_exists (uow_db s) i then uow_locked s @ [i] else uow_locked s)"
proof (cases "find (\<lambda>r. a_id r = i) (accounts (uow_db s))")
  case None
  then show ?thesis
    by (simp add: GetForUpdate_missing not_account_exists_find [symmetric])
next
  case (Some row)
  then show ?thesis
    by (simp add: GetForUpdate_found find_account_exists)
qed

lemma GetForUpdate_db: "uow_db (snd (GetForUpdate i s)) = uow_db s"
  by (simp add: GetForUpdate_def split: option.splits)

lemma GetForUpdate_fails:
  "\<not> account_exists (uow_db s) i \<Longrightarrow> \<exists>s'. GetForUpdate i s = (Inl (AccountNotFound i), s')"
  by (simp add: GetForUpdate_missing not_account_exists_find)

lemma GetForUpdate_succeeds:
  "account_exists (uow_db s) i \<Longrightarrow> \<exists>a s'. GetForUpdate i s = (Inr a, s')"
proof -
  assume "account_exists (uow_db s) i"
  then obtain row where "find (\<lambda>r. a_id r = i) (accounts (uow_db s)) = Some row"
    using not_account_exists_find [of "uow_db s" i] by (cases "find (\<lambda>r. a_id r = i) (accounts (uow_db s))") auto
  then show ?thesis by (simp add: GetForUpdate_found)
qed

text \<open>A lock-taking step followed by steps that take no lock.\<close>

lemma andThen_GetForUpdate_locked:
  assumes "\<And>x s. uow_locked (snd (f x s)) = g (uow_db s) (uow_locked s)"
  shows "uow_locked (snd (andThen (GetForUpdate i) f s)) =
     (if account_exists (uow_db s) i then g (uow_db s) (uow_locked s @ [i]) else uow_locked s)"
proof (cases "account_exists (uow_db s) i")
  case False
  from GetForUpdate_fails [OF this] obtain s' where g: "GetForUpdate i s = (Inl (AccountNotFound i), s')"
    by blast
  with GetForUpdate_locked [of i s] False show ?thesis by (simp add: andThen_def)
next
  case True
  from GetForUpdate_succeeds [OF this] obtain a s' where g: "GetForUpdate i s = (Inr a, s')"
    by blast
  with GetForUpdate_locked [of i s] GetForUpdate_db [of i s] True assms [of a s']
  show ?thesis by (simp add: andThen_def)
qed

lemma Transfer_locks:
  "snd (snd (Transfer rangeOrder ids d cmd)) =
     (if \<not> account_exists d (cmd_From cmd) then []
      else if \<not> account_exists d (cmd_To cmd) then [cmd_From cmd]
      else [cmd_From cmd, cmd_To cmd])"
  unfolding Transfer_def Do_locked
  apply (subst andThen_GetForUpdate_locked [where g = "\<lambda>db l.
        if account_exists db (cmd_To cmd) then l @ [cmd_To cmd] else l"])
  subgoal for x s
    apply (subst andThen_GetForUpdate_locked [where g = "\<lambda>db l. l"])
    subgoal for y s'
      by (simp add: locked_simps split_def)
    by simp
  by simp

lemma Exchange_locks:
  "snd (snd (Exchange usdToEurRate rangeOrder ids d cmd)) =
     (if \<not> account_exists d (cmd_SourceAccount cmd) then []
      else if \<not> account_exists d (cmd_TargetAccount cmd) then [cmd_SourceAccount cmd]
      else if \<not> account_exists d CashbookUSD
        then [cmd_SourceAccount cmd, cmd_TargetAccount cmd]
      else if \<not> account_exists d CashbookEUR
        then [cmd_SourceAccount cmd, cmd_TargetAccount cmd, CashbookUSD]
      else [cmd_SourceAccount cmd, cmd_TargetAccount cmd, CashbookUSD, CashbookEUR])"
  unfolding Exchange_def Do_locked
  apply (subst andThen_GetForUpdate_locked [where g = "\<lambda>db l.
        if \<not> account_exists db (cmd_TargetAccount cmd) then l
        else if \<not> account_exists db CashbookUSD then l @ [cmd_TargetAccount cmd]
        else if \<not> account_exists db CashbookEUR then l @ [cmd_TargetAccount cmd, CashbookUSD]
        else l @ [cmd_TargetAccount cmd, CashbookUSD, CashbookEUR]"])
  subgoal for x1 s1
    apply (subst andThen_GetForUpdate_locked [where g = "\<lambda>db l.
        if \<not> account_exists db CashbookUSD then l
        else if \<not> account_exists db CashbookEUR then l @ [CashbookUSD]
        else l @ [CashbookUSD, CashbookEUR]"])
    subgoal for x2 s2
      apply (subst andThen_GetForUpdate_locked [where g = "\<lambda>db l.
        if \<not> account_exists db CashbookEUR then l else l @ [CashbookEUR]"])
      subgoal for x3 s3
        apply (subst andThen_GetForUpdate_locked [where g = "\<lambda>db l. l"])
        subgoal for x4 s4
          by (simp add: locked_simps split_def)
        by (simp add: GetCashbookAccount_def CurrencyUSD_def CurrencyEUR_def)
      by (simp add: GetCashbookAccount_def)
    by simp
  by simp









lemma Transfer_rollback:
  "fst (Transfer rangeOrder ids d cmd) = Some err \<Longrightarrow> fst (snd (Transfer rangeOrder ids d cmd)) = d"
  by (simp add: Transfer_def Do_def split: prod.splits sum.splits)

lemma Transfer_zero_amount:
  assumes f: "find (\<lambda>r. a_id r = cmd_From cmd) (accounts d) = Some fromRow"
    and t: "find (\<lambda>r. a_id r = cmd_To cmd) (accounts d) = Some toRow"
    and z: "amount (cmd_Money cmd) = 0"
    and funds: "a_user_id fromRow = CashbookUserID \<or> 0 \<le> a_balance fromRow"
    and cf: "currency (cmd_Money cmd) = currency_of_enum (a_currency fromRow)"
    and ct: "currency (cmd_Money cmd) = currency_of_enum (a_currency toRow)"
  shows "Transfer rangeOrder ids d cmd
     = (Some (StorageError ''transfer_positive_amount''), d, [cmd_From cmd, cmd_To cmd])"
proof -
  let ?s0 = "\<lparr>uow_db = d, uow_tx = True, uow_locked = []\<rparr>"
  let ?s1 = "\<lparr>uow_db = d, uow_tx = True, uow_locked = [cmd_From cmd]\<rparr>"
  let ?s2 = "\<lparr>uow_db = d, uow_tx = True, uow_locked = [cmd_From cmd, cmd_To cmd]\<rparr>"
  let ?from = "\<lparr>acc_id = cmd_From cmd, acc_userID = a_user_id fromRow,
      acc_balance = \<lparr>amount = a_balance fromRow, currency = currency_of_enum (a_currency fromRow)\<rparr>\<rparr>"
  let ?to = "\<lparr>acc_id = cmd_To cmd, acc_userID = a_user_id toRow,
      acc_balance = \<lparr>amount = a_balance toRow, currency = currency_of_enum (a_currency toRow)\<rparr>\<rparr>"
  have g1: "GetForUpdate (cmd_From cmd) ?s0 = (Inr ?from, ?s1)"
    using f by (simp add: GetForUpdate_found)
  have g2: "GetForUpdate (cmd_To cmd) ?s1 = (Inr ?to, ?s2)"
    using t by (simp add: GetForUpdate_found)
  have ex: "executeTransfer ids ?from ?to (cmd_Money cmd) (cmd_Time cmd)
        ?s2
      = (Inr (\<lparr>td_id = newDetailsID ids,
           td_transaction = \<lparr>tx_id = newTransactionID ids, tx_transactionType = TransactionTypeTransfer,
                              tx_account = cmd_From cmd, tx_time = cmd_Time cmd\<rparr>,
           td_recipient = cmd_To cmd, td_money = cmd_Money cmd, td_time = cmd_Time cmd\<rparr>, ?from, ?to),
         ?s2)"
    using z funds cf ct
    by (simp add: executeTransfer_def TransferService_Execute_zero IsCashbook_def)
  have ins: "Transfers_Insert (newLedgerRecordID1 ids) (newLedgerRecordID2 ids)
        \<lparr>td_id = newDetailsID ids,
           td_transaction = \<lparr>tx_id = newTransactionID ids, tx_transactionType = TransactionTypeTransfer,
                              tx_account = cmd_From cmd, tx_time = cmd_Time cmd\<rparr>,
           td_recipient = cmd_To cmd, td_money = cmd_Money cmd, td_time = cmd_Time cmd\<rparr>
        ?s2
      = (Inl (StorageError ''transfer_positive_amount''),
         \<lparr>uow_db = d\<lparr>transactions := transactions d @
                 [\<lparr>t_id = newTransactionID ids, t_type = TransactionTypeTransfer,
                   t_account_id = cmd_From cmd, t_timestamp = cmd_Time cmd\<rparr>]\<rparr>,
          uow_tx = True, uow_locked = [cmd_From cmd, cmd_To cmd]\<rparr>)"
    using z cf find_account_exists [OF f]
    by (simp add: Transfers_Insert_def andThen_def transfers_insertTransaction_def
        insertTransactionRow_def transfers_insertDetails_def td_TransactionID_def Sender_def)
  show ?thesis
    by (simp add: Transfer_def Do_def andThen_def g1 g2 ex ins)
qed


section \<open>Transfers and exchanges through the application service\<close>

text \<open>
  Claim C8. The transfer domain service returns \<open>NegativeTransfer\<close> exactly for a negative
  amount. A transfer of zero between accounts of the amount's currency, the sender being a
  cashbook or having a balance that is not negative, passes the domain service: it returns
  the descriptor and leaves both balances as they were. The application service then fails
  at persistence, on the check \<^verbatim>\<open>transfer_positive_amount\<close> (\<^verbatim>\<open>amount > 0\<close>)
  of \<^verbatim>\<open>transfer_details\<close>, and the transaction is rolled back.
\<close>

theorem zero_amount_transfer:
  "((\<exists>m' f' t'. TransferService_Execute newID newTxID from to money now
        = (Inl (NegativeTransfer m'), f', t')) \<longleftrightarrow> amount money < 0) \<and>
   (amount money = 0 \<and> (IsCashbook from \<or> 0 \<le> amount (acc_balance from)) \<and>
    currency money = currency (acc_balance from) \<and>
    currency money = currency (acc_balance to) \<longrightarrow>
      TransferService_Execute newID newTxID from to money now =
        (Inr \<lparr>td_id = newID,
              td_transaction = \<lparr>tx_id = newTxID, tx_transactionType = TransactionTypeTransfer,
                                 tx_account = acc_id from, tx_time = now\<rparr>,
              td_recipient = acc_id to, td_money = money, td_time = now\<rparr>, from, to)) \<and>
   (find (\<lambda>r. a_id r = cmd_From cmd) (accounts d) = Some fromRow \<and>
    find (\<lambda>r. a_id r = cmd_To cmd) (accounts d) = Some toRow \<and>
    amount (cmd_Money cmd) = 0 \<and>
    (a_user_id fromRow = CashbookUserID \<or> 0 \<le> a_balance fromRow) \<and>
    currency (cmd_Money cmd) = currency_of_enum (a_currency fromRow) \<and>
    currency (cmd_Money cmd) = currency_of_enum (a_currency toRow) \<longrightarrow>
      Transfer rangeOrder ids d cmd
        = (Some (StorageError ''transfer_positive_amount''), d, [cmd_From cmd, cmd_To cmd]))"
  using TransferService_Execute_negative [of newID newTxID "from" to money now]
    TransferService_Execute_zero [of money "from" to newID newTxID now]
    Transfer_zero_amount [of cmd d fromRow toRow rangeOrder ids]
  by blast

theorem zero_amount_transfer_witness:
  "TransferService_Execute 2001 2002
     \<lparr>acc_id = 1, acc_userID = 100, acc_balance = \<lparr>amount = 1000, currency = ''USD''\<rparr>\<rparr>
     \<lparr>acc_id = 3, acc_userID = 200, acc_balance = \<lparr>amount = 1000, currency = ''USD''\<rparr>\<rparr>
     \<lparr>amount = 0, currency = ''USD''\<rparr> 5
   = (Inr \<lparr>td_id = 2001,
           td_transaction = \<lparr>tx_id = 2002, tx_transactionType = TransactionTypeTransfer,
                              tx_account = 1, tx_time = 5\<rparr>,
           td_recipient = 3, td_money = \<lparr>amount = 0, currency = ''USD''\<rparr>, td_time = 5\<rparr>,
      \<lparr>acc_id = 1, acc_userID = 100, acc_balance = \<lparr>amount = 1000, currency = ''USD''\<rparr>\<rparr>,
      \<lparr>acc_id = 3, acc_userID = 200, acc_balance = \<lparr>amount = 1000, currency = ''USD''\<rparr>\<rparr>) \<and>
   Transfer (\<lambda>xs. xs) fresh seeded
     \<lparr>cmd_From = 1, cmd_To = 3, cmd_Money = \<lparr>amount = 0, currency = ''USD''\<rparr>, cmd_Time = 5\<rparr>
   = (Some (StorageError ''transfer_positive_amount''), seeded, [1, 3])"
proof -
  have f: "find (\<lambda>r. a_id r = 1) (accounts seeded)
      = Some \<lparr>a_id = 1, a_user_id = 100, a_balance = 1000, a_currency = USD\<rparr>"
    by (simp add: seeded_def)
  have t: "find (\<lambda>r. a_id r = 3) (accounts seeded)
      = Some \<lparr>a_id = 3, a_user_id = 200, a_balance = 1000, a_currency = USD\<rparr>"
    by (simp add: seeded_def)
  show ?thesis
    using f t
      zero_amount_transfer [of 2001 2002
        "\<lparr>acc_id = 1, acc_userID = 100, acc_balance = \<lparr>amount = 1000, currency = ''USD''\<rparr>\<rparr>"
        "\<lparr>acc_id = 3, acc_userID = 200, acc_balance = \<lparr>amount = 1000, currency = ''USD''\<rparr>\<rparr>"
        "\<lparr>amount = 0, currency = ''USD''\<rparr>" 5
        "\<lparr>cmd_From = 1, cmd_To = 3, cmd_Money = \<lparr>amount = 0, currency = ''USD''\<rparr>, cmd_Time = 5\<rparr>"
        seeded
        "\<lparr>a_id = 1, a_user_id = 100, a_balance = 1000, a_currency = USD\<rparr>"
        "\<lparr>a_id = 3, a_user_id = 200, a_balance = 1000, a_currency = USD\<rparr>"
        "\<lambda>xs. xs" fresh]
    by (simp add: currency_of_enum_def CurrencyUSD_def)
qed






text \<open>
  Claim C6, as amended. \<open>Transfer\<close> locks the source row, then the destination row,
  whatever their identifiers; \<open>Exchange\<close> locks the source row, the target row, the USD
  cashbook and the EUR cashbook, in that order. A row that does not exist is not locked and
  ends the operation: the rows locked are the longest prefix of that sequence whose rows
  all exist.
\<close>

theorem lock_acquisition_order:
  "snd (snd (Transfer rangeOrder ids d tcmd)) =
     (if \<not> account_exists d (cmd_From tcmd) then []
      else if \<not> account_exists d (cmd_To tcmd) then [cmd_From tcmd]
      else [cmd_From tcmd, cmd_To tcmd]) \<and>
   snd (snd (Exchange usdToEurRate rangeOrder ids d ecmd)) =
     (if \<not> account_exists d (cmd_SourceAccount ecmd) then []
      else if \<not> account_exists d (cmd_TargetAccount ecmd) then [cmd_SourceAccount ecmd]
      else if \<not> account_exists d CashbookUSD
        then [cmd_SourceAccount ecmd, cmd_TargetAccount ecmd]
      else if \<not> account_exists d CashbookEUR
        then [cmd_SourceAccount ecmd, cmd_TargetAccount ecmd, CashbookUSD]
      else [cmd_SourceAccount ecmd, cmd_TargetAccount ecmd, CashbookUSD, CashbookEUR])"
  by (simp only: Transfer_locks Exchange_locks simp_thms)

theorem lock_acquisition_order_witness:
  "snd (snd (Transfer (\<lambda>xs. xs) fresh seeded
     \<lparr>cmd_From = 1, cmd_To = 3, cmd_Money = \<lparr>amount = 100, currency = ''USD''\<rparr>, cmd_Time = 5\<rparr>))
     = [1, 3] \<and>
   snd (snd (Exchange (92 / 100) (\<lambda>xs. xs) fresh seeded
     \<lparr>cmd_SourceAccount = 2, cmd_TargetAccount = 1,
      cmd_SourceAmount = \<lparr>amount = 92, currency = ''EUR''\<rparr>, cmd_ExchangeTime = 5\<rparr>))
     = [2, 1, 16, 17]"
  using lock_acquisition_order [of "\<lambda>xs. xs" fresh seeded
      "\<lparr>cmd_From = 1, cmd_To = 3, cmd_Money = \<lparr>amount = 100, currency = ''USD''\<rparr>, cmd_Time = 5\<rparr>"
      "92 / 100"
      "\<lparr>cmd_SourceAccount = 2, cmd_TargetAccount = 1,
        cmd_SourceAmount = \<lparr>amount = 92, currency = ''EUR''\<rparr>, cmd_ExchangeTime = 5\<rparr>"]
  by (simp add: account_exists_def seeded_def CashbookUSD_def CashbookEUR_def)

text \<open>
  The claim as stated, locks in ascending order of account identifier, fails for a
  transfer from account 3 to account 1: the source row 3 is locked first.
\<close>

theorem lock_acquisition_order_counterexample:
  "snd (snd (Transfer (\<lambda>xs. xs) fresh seeded
     \<lparr>cmd_From = 3, cmd_To = 1, cmd_Money = \<lparr>amount = 100, currency = ''USD''\<rparr>, cmd_Time = 5\<rparr>))
     = [3, 1] \<and>
   (1 :: AccountID) < 3"
  by (simp add: Transfer_locks account_exists_def seeded_def)

end
